theory Spec2Isabelle
  imports Complex_Main "HOL-Library.Sublist" "HOL-Library.AList"
begin

section \<open>Model construction in \<^verbatim>\<open>onmt/ModelConstructor.py\<close>\<close>

text \<open>
  The module builds a translation model from an option object and the vocabularies.
  The encoder, decoder and context classes are collaborators: a constructor call is
  a value of a datatype that records the class and the arguments it was called with.
  Exceptions are values of \<open>error\<close>; a function that can raise returns
  \<open>error + 'a\<close>. The messages the module prints are not part of the model.
\<close>

subsection \<open>Errors, strings\<close>

datatype error =
    AssertionError string
  | UnboundLocalError string
  | TypeError string
  | AttributeError string

text \<open>Python's \<^verbatim>\<open>sub in s\<close> on strings: \<open>sub\<close> occurs in \<open>s\<close> as a contiguous
  substring.\<close>

fun str_in :: "string \<Rightarrow> string \<Rightarrow> bool" where
  "str_in sub [] = (sub = [])"
| "str_in sub (c # cs) = (prefix sub (c # cs) \<or> str_in sub cs)"

text \<open>Python's \<^verbatim>\<open>s.replace(old, new)\<close>: every non-overlapping occurrence of
  \<open>old\<close>, scanning from the left, is replaced. An empty \<open>old\<close> matches before
  every character and at the end.\<close>

function str_replace :: "string \<Rightarrow> string \<Rightarrow> string \<Rightarrow> string" where
  "str_replace old new s =
     (if old = [] then new @ concat (map (\<lambda>c. c # new) s)
      else if s = [] then []
      else if prefix old s then new @ str_replace old new (drop (length old) s)
      else hd s # str_replace old new (tl s))"
  by pat_completeness auto
termination
  by (relation "measure (\<lambda>(old, new, s). length s)") auto

declare str_replace.simps [simp del]

subsection \<open>Options, vocabularies, fields\<close>

text \<open>The option object \<^verbatim>\<open>opt\<close> / \<^verbatim>\<open>model_opt\<close>: the attributes the module
  reads. Python integers are \<open>int\<close>, floats are \<open>real\<close>, an attribute that may be
  \<^verbatim>\<open>None\<close> is an option.\<close>

record opt =
  src_word_vec_size :: int
  tgt_word_vec_size :: int
  position_encoding :: bool
  feat_merge :: string
  feat_vec_exponent :: real
  feat_vec_size :: int
  dropout :: real
  optim :: string
  encoder_type :: string
  decoder_type :: string
  enc_layers :: int
  dec_layers :: int
  rnn_size :: int
  cnn_kernel_width :: int
  rnn_type :: string
  brnn :: bool
  bridge :: bool
  global_attention :: string
  copy_attn :: bool
  input_feed :: int
  coverage_attn :: bool
  context_gate :: "string option"
  reuse_copy_attn :: bool
  context_type :: "string option"
  context_size :: int
  model_type :: string
  share_embeddings :: bool
  share_decoder_embeddings :: bool
  RISK_ratio :: real
  alpha :: real
  beta :: real
  coverage_penalty :: string
  length_penalty :: string
  beam_size :: int
  n_best :: int
  min_length :: int
  max_length :: int
  stepwise_penalty :: bool
  block_ngram_repeat :: int
  ignore_when_blocking :: "string list"
  param_init :: real
  param_init_glorot :: bool
  sample_rate :: int
  window_size :: real
  pre_word_vecs_enc :: "string option"
  fix_word_vecs_enc :: bool
  pre_word_vecs_dec :: "string option"
  fix_word_vecs_dec :: bool

text \<open>A vocabulary: the word counts it was built from, the words by index, and
  the word-to-index table. The table is a dictionary with a default: a word that is
  not in it has index 0. The vocabularies here carry no pretrained vectors (the
  attribute \<^verbatim>\<open>vectors\<close> is \<^verbatim>\<open>None\<close>, as preprocessing leaves it).\<close>

record vocab =
  freqs :: "(string \<times> nat) list"
  itos :: "string list"
  stoi_table :: "(string \<times> nat) list"

definition stoi :: "vocab \<Rightarrow> string \<Rightarrow> nat" where
  "stoi v w = (case map_of (stoi_table v) w of Some i \<Rightarrow> i | None \<Rightarrow> 0)"

definition len_vocab :: "vocab \<Rightarrow> nat" where
  "len_vocab v = length (itos v)"

text \<open>Reading \<^verbatim>\<open>stoi[w]\<close> for a word that is not in the table stores the
  default for it, as a \<^verbatim>\<open>defaultdict\<close> does. The index read is the same before
  and after; the stored entry shows only when two tables are compared.\<close>

definition after_lookup :: "vocab \<Rightarrow> string \<Rightarrow> vocab" where
  "after_lookup v w =
     (if map_of (stoi_table v) w = None
      then v\<lparr>stoi_table := stoi_table v @ [(w, 0)]\<rparr> else v)"

text \<open>Two dictionaries are equal when they have the same keys with the same
  values, in any order.\<close>

definition dict_eq :: "('k \<times> 'a) list \<Rightarrow> ('k \<times> 'a) list \<Rightarrow> bool" where
  "dict_eq a b = list_all (\<lambda>k. map_of a k = map_of b k) (map fst a @ map fst b)"

text \<open>The comparison of two vocabularies: they are equal when the counts, the
  word-to-index tables (as dictionaries) and the index-to-word lists are equal, tested
  in that order; \<^verbatim>\<open>a != b\<close> is the negation. The last test of the class, on
  \<^verbatim>\<open>vectors\<close>, is between \<^verbatim>\<open>None\<close> and \<^verbatim>\<open>None\<close>.\<close>

definition vocab_eq :: "vocab \<Rightarrow> vocab \<Rightarrow> bool" where
  "vocab_eq a b =
     (if \<not> dict_eq (freqs a) (freqs b) then False
      else if \<not> dict_eq (stoi_table a) (stoi_table b) then False
      else if itos a \<noteq> itos b then False
      else True)"

text \<open>The constants of \<^verbatim>\<open>onmt.io\<close> that the module reads, taken as a parameter.\<close>

record io_consts =
  PAD_WORD :: string
  UNK :: nat
  BOS_WORD :: string
  EOS_WORD :: string

text \<open>\<^verbatim>\<open>fields\<close>: the vocabularies of \<^verbatim>\<open>fields["src"]\<close> and
  \<^verbatim>\<open>fields["tgt"]\<close>, and the lists that
  \<^verbatim>\<open>onmt.io.collect_feature_vocabs(fields, side)\<close> returns for each side.\<close>

record fields =
  src_vocab :: vocab
  tgt_vocab :: vocab
  src_feature_vocabs :: "vocab list"
  tgt_feature_vocabs :: "vocab list"

subsection \<open>Modules\<close>

text \<open>A parameter object is identified by a number; two attributes hold the
  identical object when they hold the same number. A constructor that creates a
  weight takes the next free number and returns the one after it.\<close>

type_synonym obj = nat

datatype embeddings = Embeddings
  (emb_word_vec_size: int)
  (emb_position_encoding: bool)
  (emb_feat_merge: string)
  (emb_feat_vec_exponent: real)
  (emb_feat_vec_size: int)
  (emb_dropout: real)
  (emb_word_padding_idx: nat)
  (emb_feat_padding_idx: "nat list")
  (emb_word_vocab_size: nat)
  (emb_feat_vocab_sizes: "nat list")
  (emb_sparse: bool)
  (word_lut_weight: obj)

datatype encoder =
    TransformerEncoder int int real embeddings
  | CNNEncoder int int int real embeddings
  | MeanEncoder int embeddings
  | RNNEncoder string bool int int real embeddings bool
  | ImageEncoder int bool int real
  | AudioEncoder int bool int real int real

datatype decoder =
    TransformerDecoder int int string bool real embeddings
  | CNNDecoder int int string bool int real embeddings
  | InputFeedRNNDecoder string bool int int string bool "string option" bool real
      embeddings bool
  | StdRNNDecoder string bool int int string bool "string option" bool real
      embeddings bool

datatype hierarchical_context = HierarchicalContext
  (hc_rnn_size: int)
  (hc_dropout: real)
  (hc_context_type: "string option")
  (hc_context_size: int)
  (hc_padding_idx: nat)
  (hc_tok_idx: "nat list")

datatype context_module =
    ModuleList "hierarchical_context list"
  | Single hierarchical_context

subsection \<open>The dispatchers\<close>

definition make_embeddings ::
  "io_consts \<Rightarrow> opt \<Rightarrow> vocab \<Rightarrow> vocab list \<Rightarrow> bool \<Rightarrow> obj \<Rightarrow> embeddings \<times> obj" where
  "make_embeddings io opt word_dict feature_dicts for_encoder fresh =
     (let embedding_dim =
            (if for_encoder then src_word_vec_size opt else tgt_word_vec_size opt);
          word_padding_idx = stoi word_dict (PAD_WORD io);
          num_word_embeddings = len_vocab word_dict;
          feats_padding_idx = map (\<lambda>feat_dict. stoi feat_dict (PAD_WORD io)) feature_dicts;
          num_feat_embeddings = map len_vocab feature_dicts
      in (Embeddings embedding_dim (position_encoding opt) (feat_merge opt)
            (feat_vec_exponent opt) (feat_vec_size opt) (dropout opt)
            word_padding_idx feats_padding_idx num_word_embeddings num_feat_embeddings
            (optim opt = ''sparseadam'') fresh,
          Suc fresh))"

definition make_encoder :: "opt \<Rightarrow> embeddings \<Rightarrow> encoder" where
  "make_encoder opt embeddings =
     (if encoder_type opt = ''transformer'' then
        TransformerEncoder (enc_layers opt) (rnn_size opt) (dropout opt) embeddings
      else if encoder_type opt = ''cnn'' then
        CNNEncoder (enc_layers opt) (rnn_size opt) (cnn_kernel_width opt) (dropout opt)
          embeddings
      else if encoder_type opt = ''mean'' then
        MeanEncoder (enc_layers opt) embeddings
      else
        RNNEncoder (rnn_type opt) (brnn opt) (enc_layers opt) (rnn_size opt) (dropout opt)
          embeddings (bridge opt))"

definition make_decoder :: "opt \<Rightarrow> embeddings \<Rightarrow> decoder" where
  "make_decoder opt embeddings =
     (if decoder_type opt = ''transformer'' then
        TransformerDecoder (dec_layers opt) (rnn_size opt) (global_attention opt)
          (copy_attn opt) (dropout opt) embeddings
      else if decoder_type opt = ''cnn'' then
        CNNDecoder (dec_layers opt) (rnn_size opt) (global_attention opt) (copy_attn opt)
          (cnn_kernel_width opt) (dropout opt) embeddings
      else if input_feed opt \<noteq> 0 then
        InputFeedRNNDecoder (rnn_type opt) (brnn opt) (dec_layers opt) (rnn_size opt)
          (global_attention opt) (coverage_attn opt) (context_gate opt) (copy_attn opt)
          (dropout opt) embeddings (reuse_copy_attn opt)
      else
        StdRNNDecoder (rnn_type opt) (brnn opt) (dec_layers opt) (rnn_size opt)
          (global_attention opt) (coverage_attn opt) (context_gate opt) (copy_attn opt)
          (dropout opt) embeddings (reuse_copy_attn opt))"

definition make_context :: "io_consts \<Rightarrow> opt \<Rightarrow> vocab \<Rightarrow> context_module option" where
  "make_context io opt tgt_dict =
     (let padding_idx = stoi tgt_dict (PAD_WORD io);
          tok = [stoi tgt_dict (PAD_WORD io), UNK io,
                 stoi tgt_dict (BOS_WORD io), stoi tgt_dict (EOS_WORD io)]
      in if context_type opt = None then None
         else if context_type opt = Some ''HAN_join'' then
           Some (ModuleList
             [HierarchicalContext (rnn_size opt) (dropout opt) (context_type opt)
                (context_size opt) padding_idx tok,
              HierarchicalContext (rnn_size opt) (dropout opt) (context_type opt)
                (context_size opt) padding_idx tok])
         else
           Some (Single
             (HierarchicalContext (rnn_size opt) (dropout opt) (context_type opt)
                (context_size opt) padding_idx tok)))"

subsection \<open>The model, the generator, parameters\<close>

datatype scorer = GNMTGlobalScorer real real string string

datatype risk_args = RiskArgs
  (risk_tgt_vocab: vocab)
  (risk_beam_size: int)
  (risk_n_best: int)
  (risk_gpu: bool)
  (risk_scorer: scorer)
  (risk_min_length: int)
  (risk_max_length: int)
  (risk_stepwise_penalty: bool)
  (risk_block_ngram_repeat: int)
  (risk_ignore_when_blocking: "string list")
  (risk_copy_attn: bool)
  (risk_context_size: int)

text \<open>\<^verbatim>\<open>NMTModel(encoder, decoder, context, context_type=..., ...)\<close>: the
  attributes \<^verbatim>\<open>encoder\<close>, \<^verbatim>\<open>decoder\<close> and \<^verbatim>\<open>doc_context\<close> that the
  module reads back, the context type, and the extra keyword arguments of the call
  made when \<^verbatim>\<open>RISK_ratio > 0.0\<close>.\<close>

datatype nmt_model = NMTModel
  (model_encoder: encoder)
  (model_decoder: decoder)
  (doc_context: "context_module option")
  (nmt_context_type: "string option")
  (nmt_risk_args: "risk_args option")

text \<open>The attribute \<^verbatim>\<open>embeddings\<close> of an encoder or a decoder: the encoders and
  decoders built over embeddings keep them under that name; the image and audio
  encoders have no such attribute (\<^verbatim>\<open>hasattr\<close> is false).\<close>

fun encoder_embeddings :: "encoder \<Rightarrow> embeddings option" where
  "encoder_embeddings (TransformerEncoder _ _ _ e) = Some e"
| "encoder_embeddings (CNNEncoder _ _ _ _ e) = Some e"
| "encoder_embeddings (MeanEncoder _ e) = Some e"
| "encoder_embeddings (RNNEncoder _ _ _ _ _ e _) = Some e"
| "encoder_embeddings (ImageEncoder _ _ _ _) = None"
| "encoder_embeddings (AudioEncoder _ _ _ _ _ _) = None"

fun decoder_embeddings :: "decoder \<Rightarrow> embeddings option" where
  "decoder_embeddings (TransformerDecoder _ _ _ _ _ e) = Some e"
| "decoder_embeddings (CNNDecoder _ _ _ _ _ _ e) = Some e"
| "decoder_embeddings (InputFeedRNNDecoder _ _ _ _ _ _ _ _ _ e _) = Some e"
| "decoder_embeddings (StdRNNDecoder _ _ _ _ _ _ _ _ _ e _) = Some e"

text \<open>\<^verbatim>\<open>nn.Linear(in, out)\<close> creates its weight; \<^verbatim>\<open>CopyGenerator\<close> creates
  the weight of its own linear layer.\<close>

datatype linear = Linear (in_features: int) (out_features: nat) (weight: obj)

datatype log_softmax = LogSoftmax int

datatype generator =
    Sequential linear log_softmax
  | CopyGenerator int vocab obj

fun generator_linear_weight :: "generator \<Rightarrow> obj" where
  "generator_linear_weight (Sequential l _) = weight l"
| "generator_linear_weight (CopyGenerator _ _ w) = w"

text \<open>A parameter: its number of dimensions, the attribute \<^verbatim>\<open>requires_grad\<close>
  that the optimiser reads, the attribute \<^verbatim>\<open>require_grad\<close> (absent until it is
  assigned), and the initialisations applied to its data, oldest first.\<close>

datatype init = Uniform real real | Xavier

record param =
  p_dim :: nat
  requires_grad :: bool
  require_grad :: "bool option"
  inits :: "init list"

type_synonym store = "obj \<Rightarrow> param"

text \<open>A state dictionary: parameter names and tensors, in order, over any type
  \<open>'v\<close> of tensors.\<close>

type_synonym 'v state_dict = "(string \<times> 'v) list"

record 'v checkpoint =
  ck_model :: "'v state_dict"
  ck_generator :: "'v state_dict"

text \<open>What the model under construction answers to the calls the module makes on
  it: \<^verbatim>\<open>model.state_dict()\<close>, \<^verbatim>\<open>model.parameters()\<close>,
  \<^verbatim>\<open>generator.parameters()\<close>, \<^verbatim>\<open>model.doc_context.parameters()\<close>, and the
  parameter objects themselves.\<close>

record 'v torch =
  state_dict :: "'v state_dict"
  model_parameters :: "obj list"
  generator_parameters :: "obj list"
  doc_context_parameters :: "obj list"
  parameters :: store

text \<open>The returned model, with everything the module did to it.\<close>

datatype load_call = LoadPretrained embeddings "string option" bool

record 'v model =
  nmt :: nmt_model
  model_type_attr :: string
  generator_attr :: generator
  loaded_dict :: "'v state_dict option"
  state :: "'v state_dict"
  generator_loaded :: "'v state_dict option"
  params :: store
  pretrained_calls :: "load_call list"
  on_gpu :: bool

subsection \<open>Dictionaries\<close>

text \<open>\<^verbatim>\<open>k in d\<close>, \<^verbatim>\<open>d[k] = v\<close> and \<^verbatim>\<open>d.update(e)\<close> on ordered
  dictionaries.\<close>

definition key_in :: "string \<Rightarrow> 'v state_dict \<Rightarrow> bool" where
  "key_in k d = (map_of d k \<noteq> None)"

definition dict_update :: "'v state_dict \<Rightarrow> 'v state_dict \<Rightarrow> 'v state_dict" where
  "dict_update d e = fold (\<lambda>(k, v). AList.update k v) e d"

text \<open>\<^verbatim>\<open>load_state_dict(d, strict=False)\<close>: every entry of the module's own
  state whose name is a key of \<open>d\<close> takes the tensor of \<open>d\<close>; keys of \<open>d\<close> that
  the module does not have are ignored, names that \<open>d\<close> lacks keep their tensor.\<close>

definition load_state_dict :: "'v state_dict \<Rightarrow> 'v state_dict \<Rightarrow> 'v state_dict" where
  "load_state_dict own d =
     map (\<lambda>(k, v). (k, case map_of d k of Some v' \<Rightarrow> v' | None \<Rightarrow> v)) own"

subsection \<open>\<^verbatim>\<open>make_base_model\<close>, section by section\<close>

text \<open>Make encoder. \<^verbatim>\<open>src_dict\<close> and \<^verbatim>\<open>src_embeddings\<close> are bound in the
  text branch only, \<^verbatim>\<open>encoder\<close> in the three branches: a local variable is an
  option, \<open>None\<close> while it is unbound.\<close>

definition make_encoder_section ::
  "io_consts \<Rightarrow> opt \<Rightarrow> fields \<Rightarrow> obj
     \<Rightarrow> vocab option \<times> embeddings option \<times> encoder option \<times> obj" where
  "make_encoder_section io model_opt flds fresh =
     (if model_type model_opt = ''text'' then
        (let src_dict = src_vocab flds;
             feature_dicts = src_feature_vocabs flds;
             (src_embeddings, fresh') =
               make_embeddings io model_opt src_dict feature_dicts True fresh;
             encoder = make_encoder model_opt src_embeddings
         in (Some src_dict, Some src_embeddings, Some encoder, fresh'))
      else if model_type model_opt = ''img'' then
        (None, None,
         Some (ImageEncoder (enc_layers model_opt) (brnn model_opt) (rnn_size model_opt)
                 (dropout model_opt)),
         fresh)
      else if model_type model_opt = ''audio'' then
        (None, None,
         Some (AudioEncoder (enc_layers model_opt) (brnn model_opt) (rnn_size model_opt)
                 (dropout model_opt) (sample_rate model_opt) (window_size model_opt)),
         fresh)
      else (None, None, None, fresh))"

text \<open>Share the embedding matrix:
  \<^verbatim>\<open>tgt_embeddings.word_lut.weight = src_embeddings.word_lut.weight\<close>. When the
  vocabularies are compared each has been read at \<^verbatim>\<open>PAD_WORD\<close> by
  \<^verbatim>\<open>make_embeddings\<close>.\<close>

fun set_word_lut_weight :: "embeddings \<Rightarrow> obj \<Rightarrow> embeddings" where
  "set_word_lut_weight (Embeddings a b c d e f g h i j k _) w =
     Embeddings a b c d e f g h i j k w"

definition share_embeddings_section ::
  "io_consts \<Rightarrow> opt \<Rightarrow> vocab option \<Rightarrow> embeddings option \<Rightarrow> vocab \<Rightarrow> embeddings
     \<Rightarrow> error + embeddings" where
  "share_embeddings_section io model_opt src_dict src_embeddings tgt_dict tgt_embeddings =
     (if share_embeddings model_opt then
        (case src_dict of
           None \<Rightarrow> Inl (UnboundLocalError ''src_dict'')
         | Some sd \<Rightarrow>
             if \<not> vocab_eq (after_lookup sd (PAD_WORD io))
                      (after_lookup tgt_dict (PAD_WORD io)) then
               Inl (AssertionError
                 (''The `-share_vocab` should be set during '' @
                  ''preprocess if you use share_embeddings!''))
             else
               (case src_embeddings of
                  None \<Rightarrow> Inl (UnboundLocalError ''src_embeddings'')
                | Some se \<Rightarrow> Inr (set_word_lut_weight tgt_embeddings (word_lut_weight se))))
      else Inr tgt_embeddings)"

text \<open>Make NMTModel (= encoder + decoder).\<close>

definition make_nmt_model ::
  "opt \<Rightarrow> fields \<Rightarrow> bool \<Rightarrow> encoder \<Rightarrow> decoder \<Rightarrow> context_module option \<Rightarrow> nmt_model" where
  "make_nmt_model model_opt flds gpu encoder decoder context =
     (if RISK_ratio model_opt > 0 then
        (let scorer = GNMTGlobalScorer (alpha model_opt) (beta model_opt)
                        (coverage_penalty model_opt) (length_penalty model_opt)
         in NMTModel encoder decoder context (context_type model_opt)
              (Some (RiskArgs (tgt_vocab flds) (beam_size model_opt) (n_best model_opt)
                 gpu scorer (min_length model_opt) (max_length model_opt)
                 (stepwise_penalty model_opt) (block_ngram_repeat model_opt)
                 (ignore_when_blocking model_opt) (copy_attn model_opt)
                 (context_size model_opt))))
      else NMTModel encoder decoder context (context_type model_opt) None)"

text \<open>Make Generator.\<close>

definition make_generator ::
  "opt \<Rightarrow> fields \<Rightarrow> decoder \<Rightarrow> obj \<Rightarrow> error + generator \<times> obj" where
  "make_generator model_opt flds decoder fresh =
     (if \<not> copy_attn model_opt then
        (let lin = Linear (rnn_size model_opt) (len_vocab (tgt_vocab flds)) fresh;
             fresh' = Suc fresh
         in if share_decoder_embeddings model_opt then
              (case decoder_embeddings decoder of
                 None \<Rightarrow> Inl (AttributeError ''embeddings'')
               | Some e \<Rightarrow>
                   Inr (Sequential
                          (Linear (in_features lin) (out_features lin) (word_lut_weight e))
                          (LogSoftmax 1),
                        fresh'))
            else Inr (Sequential lin (LogSoftmax 1), fresh'))
      else
        Inr (CopyGenerator (rnn_size model_opt) (tgt_vocab flds) fresh, Suc fresh))"

text \<open>Load the model states from checkpoint: the dictionary given to
  \<^verbatim>\<open>model.load_state_dict\<close> when \<^verbatim>\<open>train_part == "context"\<close>. The loop of the
  join branch tests the key as the checkpoint has it and renames it afterwards.\<close>

definition pretrained_join :: "'v state_dict \<Rightarrow> 'v state_dict \<Rightarrow> 'v state_dict" where
  "pretrained_join model_dict items =
     fold (\<lambda>(k, v) pretrained_dict.
             if key_in k model_dict then
               (let k' = (if str_in ''doc_context'' k
                          then str_replace ''doc_context'' ''doc_context.0'' k else k)
                in AList.update k' v pretrained_dict)
             else pretrained_dict)
          items []"

definition pretrained_plain :: "'v state_dict \<Rightarrow> 'v state_dict \<Rightarrow> 'v state_dict" where
  "pretrained_plain model_dict items =
     fold (\<lambda>(k, v). AList.update k v)
          (filter (\<lambda>(k, v). key_in k model_dict \<and> \<not> str_in ''doc_context'' k) items) []"

definition context_model_dict ::
  "opt \<Rightarrow> 'v state_dict \<Rightarrow> 'v checkpoint \<Rightarrow> error + 'v state_dict" where
  "context_model_dict model_opt model_state checkpoint =
     (let model_dict = model_state
      in case context_type model_opt of
           None \<Rightarrow> Inl (TypeError ''context_type'')
         | Some ct \<Rightarrow>
             (let pretrained_dict =
                    (if str_in ''join'' ct
                     then pretrained_join model_dict (ck_model checkpoint)
                     else pretrained_plain model_dict (ck_model checkpoint))
              in Inr (dict_update model_dict pretrained_dict)))"

text \<open>The loops over parameters. \<^verbatim>\<open>param.require_grad = b\<close> assigns the attribute
  of that name; \<^verbatim>\<open>uniform_\<close> and \<^verbatim>\<open>xavier_uniform\<close> draw new data.\<close>

definition set_require_grad :: "bool \<Rightarrow> obj \<Rightarrow> store \<Rightarrow> store" where
  "set_require_grad b p ps = ps(p := (ps p)\<lparr>require_grad := Some b\<rparr>)"

definition uniform_init :: "real \<Rightarrow> real \<Rightarrow> obj \<Rightarrow> store \<Rightarrow> store" where
  "uniform_init lo hi p ps = ps(p := (ps p)\<lparr>inits := inits (ps p) @ [Uniform lo hi]\<rparr>)"

definition xavier_uniform :: "obj \<Rightarrow> store \<Rightarrow> store" where
  "xavier_uniform p ps = ps(p := (ps p)\<lparr>inits := inits (ps p) @ [Xavier]\<rparr>)"

definition xavier_if_matrix :: "obj \<Rightarrow> store \<Rightarrow> store" where
  "xavier_if_matrix p ps = (if p_dim (ps p) > 1 then xavier_uniform p ps else ps)"

definition unfreeze_step :: "opt \<Rightarrow> obj \<Rightarrow> store \<Rightarrow> store" where
  "unfreeze_step model_opt p ps =
     (let ps1 = set_require_grad True p ps;
          ps2 = (if param_init model_opt \<noteq> 0
                 then uniform_init (- param_init model_opt) (param_init model_opt) p ps1
                 else ps1)
      in if param_init_glorot model_opt then xavier_if_matrix p ps2 else ps2)"

definition freeze_section :: "opt \<Rightarrow> 'v torch \<Rightarrow> nmt_model \<Rightarrow> error + store" where
  "freeze_section model_opt torch model =
     (let ps1 = fold (set_require_grad False) (model_parameters torch) (parameters torch);
          ps2 = fold (set_require_grad False) (generator_parameters torch) ps1
      in case doc_context model of
           None \<Rightarrow> Inl (AttributeError ''parameters'')
         | Some c \<Rightarrow> Inr (fold (unfreeze_step model_opt) (doc_context_parameters torch) ps2))"

text \<open>Without a checkpoint: initialise, then load the pretrained word vectors.\<close>

definition init_section :: "opt \<Rightarrow> 'v torch \<Rightarrow> store" where
  "init_section model_opt torch =
     (let a = param_init model_opt;
          ps1 = (if a \<noteq> 0
                 then fold (uniform_init (- a) a) (generator_parameters torch)
                        (fold (uniform_init (- a) a) (model_parameters torch) (parameters torch))
                 else parameters torch)
      in if param_init_glorot model_opt
         then fold xavier_if_matrix (generator_parameters torch)
                (fold xavier_if_matrix (model_parameters torch) ps1)
         else ps1)"

definition pretrained_section :: "opt \<Rightarrow> nmt_model \<Rightarrow> load_call list" where
  "pretrained_section model_opt model =
     (case encoder_embeddings (model_encoder model) of
        Some e \<Rightarrow> [LoadPretrained e (pre_word_vecs_enc model_opt) (fix_word_vecs_enc model_opt)]
      | None \<Rightarrow> []) @
     (case decoder_embeddings (model_decoder model) of
        Some e \<Rightarrow> [LoadPretrained e (pre_word_vecs_dec model_opt) (fix_word_vecs_dec model_opt)]
      | None \<Rightarrow> [])"

text \<open>Load the model states from checkpoint or initialize them; add the generator
  to the model; move it to the device.\<close>

definition load_or_init_section ::
  "'v torch \<Rightarrow> opt \<Rightarrow> bool \<Rightarrow> 'v checkpoint option \<Rightarrow> string \<Rightarrow> nmt_model \<Rightarrow> generator
     \<Rightarrow> error + 'v model" where
  "load_or_init_section torch model_opt gpu checkpoint train_part model generator =
     (case checkpoint of
        Some ck \<Rightarrow>
          (case (if train_part = ''context''
                 then context_model_dict model_opt (state_dict torch) ck
                 else Inr (ck_model ck)) of
             Inl e \<Rightarrow> Inl e
           | Inr model_dict \<Rightarrow>
               (case (if train_part = ''context''
                      then freeze_section model_opt torch model
                      else Inr (parameters torch)) of
                  Inl e \<Rightarrow> Inl e
                | Inr ps \<Rightarrow>
                    Inr \<lparr>nmt = model, model_type_attr = model_type model_opt,
                         generator_attr = generator,
                         loaded_dict = Some model_dict,
                         state = load_state_dict (state_dict torch) model_dict,
                         generator_loaded = Some (ck_generator ck),
                         params = ps, pretrained_calls = [], on_gpu = gpu\<rparr>))
      | None \<Rightarrow>
          Inr \<lparr>nmt = model, model_type_attr = model_type model_opt,
               generator_attr = generator,
               loaded_dict = None,
               state = state_dict torch,
               generator_loaded = None,
               params = init_section model_opt torch,
               pretrained_calls = pretrained_section model_opt model, on_gpu = gpu\<rparr>)"

definition make_base_model ::
  "io_consts \<Rightarrow> 'v torch \<Rightarrow> opt \<Rightarrow> fields \<Rightarrow> bool \<Rightarrow> 'v checkpoint option \<Rightarrow> string
     \<Rightarrow> error + 'v model" where
  "make_base_model io torch model_opt flds gpu checkpoint train_part =
     (if model_type model_opt \<notin> set [''text'', ''img'', ''audio''] then
        Inl (AssertionError (''Unsupported model type '' @ model_type model_opt))
      else
        (case make_encoder_section io model_opt flds 0 of
           (src_dict, src_embeddings, encoder, fresh1) \<Rightarrow>
        (let tgt_dict = tgt_vocab flds;
             feature_dicts = tgt_feature_vocabs flds
         in case make_embeddings io model_opt tgt_dict feature_dicts False fresh1 of
           (tgt_embeddings0, fresh2) \<Rightarrow>
        (case share_embeddings_section io model_opt src_dict src_embeddings tgt_dict
                tgt_embeddings0 of
           Inl e \<Rightarrow> Inl e
         | Inr tgt_embeddings \<Rightarrow>
        (let decoder = make_decoder model_opt tgt_embeddings;
             context = make_context io model_opt tgt_dict
         in case encoder of
           None \<Rightarrow> Inl (UnboundLocalError ''encoder'')
         | Some enc \<Rightarrow>
        (let model = make_nmt_model model_opt flds gpu enc decoder context
         in case make_generator model_opt flds decoder fresh2 of
           Inl e \<Rightarrow> Inl e
         | Inr (generator, fresh3) \<Rightarrow>
             load_or_init_section torch model_opt gpu checkpoint train_part model
               generator))))))"

subsection \<open>Concrete inputs\<close>

text \<open>A small configuration in the shape the training script produces: a text
  model with transformer encoder and decoder and a single context module.\<close>

definition example_io :: io_consts where
  "example_io = \<lparr>PAD_WORD = ''<blank>'', UNK = 0, BOS_WORD = ''<s>'', EOS_WORD = ''</s>''\<rparr>"

definition example_vocab :: vocab where
  "example_vocab =
     \<lparr>freqs = [(''chat'', 7)],
      itos = [''<unk>'', ''<blank>'', ''<s>'', ''</s>'', ''chat''],
      stoi_table = [(''<unk>'', 0), (''<blank>'', 1), (''<s>'', 2), (''</s>'', 3),
                    (''chat'', 4)]\<rparr>"

definition other_vocab :: vocab where
  "other_vocab =
     \<lparr>freqs = [(''cat'', 3)],
      itos = [''<unk>'', ''<blank>'', ''cat''],
      stoi_table = [(''<unk>'', 0), (''<blank>'', 1), (''cat'', 2)]\<rparr>"



definition example_fields :: fields where
  "example_fields =
     \<lparr>src_vocab = other_vocab, tgt_vocab = example_vocab,
      src_feature_vocabs = [], tgt_feature_vocabs = []\<rparr>"

definition shared_fields :: fields where
  "shared_fields =
     \<lparr>src_vocab = example_vocab, tgt_vocab = example_vocab,
      src_feature_vocabs = [], tgt_feature_vocabs = []\<rparr>"

definition example_opt :: opt where
  "example_opt =
     \<lparr>src_word_vec_size = 512, tgt_word_vec_size = 512, position_encoding = True,
      feat_merge = ''concat'', feat_vec_exponent = 0.7, feat_vec_size = -1,
      dropout = 0.1, optim = ''adam'', encoder_type = ''transformer'',
      decoder_type = ''transformer'', enc_layers = 6, dec_layers = 6, rnn_size = 512,
      cnn_kernel_width = 3, rnn_type = ''LSTM'', brnn = False, bridge = False,
      global_attention = ''general'', copy_attn = False, input_feed = 1,
      coverage_attn = False, context_gate = None, reuse_copy_attn = False,
      context_type = Some ''HAN_enc'', context_size = 3, model_type = ''text'',
      share_embeddings = False, share_decoder_embeddings = False, RISK_ratio = 0,
      alpha = 0, beta = 0, coverage_penalty = ''none'', length_penalty = ''none'',
      beam_size = 5, n_best = 1, min_length = 0, max_length = 100,
      stepwise_penalty = False, block_ngram_repeat = 0, ignore_when_blocking = [],
      param_init = 0.1, param_init_glorot = True, sample_rate = 16000,
      window_size = 0.02, pre_word_vecs_enc = None, fix_word_vecs_enc = False,
      pre_word_vecs_dec = None, fix_word_vecs_dec = False\<rparr>"

text \<open>A freshly constructed parameter: \<^verbatim>\<open>requires_grad\<close> is true, no attribute
  \<^verbatim>\<open>require_grad\<close>, nothing drawn yet.\<close>

definition fresh_param :: "nat \<Rightarrow> param" where
  "fresh_param d = \<lparr>p_dim = d, requires_grad = True, require_grad = None, inits = []\<rparr>"

text \<open>A model with an encoder matrix (object 10), a vector and a matrix of the
  context module (objects 11 and 12), and a generator matrix (object 20); tensors are
  numbers.\<close>

definition example_torch :: "int torch" where
  "example_torch =
     \<lparr>state_dict = [(''encoder.w'', 1), (''doc_context.b'', 2), (''doc_context.w'', 3)],
      model_parameters = [10, 11, 12],
      generator_parameters = [20],
      doc_context_parameters = [11, 12],
      parameters = (\<lambda>p. fresh_param (if p = 11 then 1 else 2))\<rparr>"

definition example_checkpoint :: "int checkpoint" where
  "example_checkpoint =
     \<lparr>ck_model = [(''encoder.w'', 100), (''doc_context.w'', 300), (''decoder.w'', 400)],
      ck_generator = [(''0.weight'', 500), (''0.bias'', 501)]\<rparr>"

text \<open>The paired model: its context modules are \<^verbatim>\<open>doc_context.0\<close> and
  \<^verbatim>\<open>doc_context.1\<close>; the checkpoint is that of a model with one context
  module.\<close>

definition join_torch :: "int torch" where
  "join_torch =
     \<lparr>state_dict = [(''encoder.w'', 1), (''doc_context.0.w'', 2), (''doc_context.1.w'', 3)],
      model_parameters = [10, 11, 12],
      generator_parameters = [20],
      doc_context_parameters = [11, 12],
      parameters = (\<lambda>p. fresh_param 2)\<rparr>"

definition single_context_checkpoint :: "int checkpoint" where
  "single_context_checkpoint =
     \<lparr>ck_model = [(''encoder.w'', 100), (''doc_context.w'', 300)],
      ck_generator = [(''0.weight'', 500), (''0.bias'', 501)]\<rparr>"

definition example_embeddings :: embeddings where
  "example_embeddings = Embeddings 512 True ''concat'' 0.7 (-1) 0.1 1 [] 5 [] False 0"

section \<open>Properties\<close>

subsection \<open>The encoder, decoder and context dispatchers\<close>

text \<open>Claim C9. \<^verbatim>\<open>make_encoder\<close> builds a \<^verbatim>\<open>TransformerEncoder\<close> for encoder
  type "transformer", a \<^verbatim>\<open>CNNEncoder\<close> for "cnn", a \<^verbatim>\<open>MeanEncoder\<close> for
  "mean" and an \<^verbatim>\<open>RNNEncoder\<close> for every other encoder type. \<^verbatim>\<open>make_decoder\<close>
  builds a \<^verbatim>\<open>TransformerDecoder\<close> for decoder type "transformer", a
  \<^verbatim>\<open>CNNDecoder\<close> for "cnn", and for every other decoder type an
  \<^verbatim>\<open>InputFeedRNNDecoder\<close> when \<^verbatim>\<open>input_feed\<close> is set and a
  \<^verbatim>\<open>StdRNNDecoder\<close> when it is not. Each is built from the options the source
  passes, over the given embeddings.\<close>

theorem make_encoder_make_decoder_dispatch:
  "(encoder_type opt = ''transformer'' \<longrightarrow>
      make_encoder opt emb =
        TransformerEncoder (enc_layers opt) (rnn_size opt) (dropout opt) emb) \<and>
   (encoder_type opt = ''cnn'' \<longrightarrow>
      make_encoder opt emb =
        CNNEncoder (enc_layers opt) (rnn_size opt) (cnn_kernel_width opt) (dropout opt) emb) \<and>
   (encoder_type opt = ''mean'' \<longrightarrow>
      make_encoder opt emb = MeanEncoder (enc_layers opt) emb) \<and>
   (encoder_type opt \<notin> {''transformer'', ''cnn'', ''mean''} \<longrightarrow>
      make_encoder opt emb =
        RNNEncoder (rnn_type opt) (brnn opt) (enc_layers opt) (rnn_size opt) (dropout opt)
          emb (bridge opt)) \<and>
   (decoder_type opt = ''transformer'' \<longrightarrow>
      make_decoder opt emb =
        TransformerDecoder (dec_layers opt) (rnn_size opt) (global_attention opt)
          (copy_attn opt) (dropout opt) emb) \<and>
   (decoder_type opt = ''cnn'' \<longrightarrow>
      make_decoder opt emb =
        CNNDecoder (dec_layers opt) (rnn_size opt) (global_attention opt) (copy_attn opt)
          (cnn_kernel_width opt) (dropout opt) emb) \<and>
   (decoder_type opt \<notin> {''transformer'', ''cnn''} \<and> input_feed opt \<noteq> 0 \<longrightarrow>
      make_decoder opt emb =
        InputFeedRNNDecoder (rnn_type opt) (brnn opt) (dec_layers opt) (rnn_size opt)
          (global_attention opt) (coverage_attn opt) (context_gate opt) (copy_attn opt)
          (dropout opt) emb (reuse_copy_attn opt)) \<and>
   (decoder_type opt \<notin> {''transformer'', ''cnn''} \<and> input_feed opt = 0 \<longrightarrow>
      make_decoder opt emb =
        StdRNNDecoder (rnn_type opt) (brnn opt) (dec_layers opt) (rnn_size opt)
          (global_attention opt) (coverage_attn opt) (context_gate opt) (copy_attn opt)
          (dropout opt) emb (reuse_copy_attn opt))"
  by (simp add: make_encoder_def make_decoder_def)

theorem make_encoder_make_decoder_dispatch_witness:
  "make_encoder example_opt example_embeddings =
     TransformerEncoder 6 512 0.1 example_embeddings \<and>
   make_encoder (example_opt\<lparr>encoder_type := ''cnn''\<rparr>) example_embeddings =
     CNNEncoder 6 512 3 0.1 example_embeddings \<and>
   make_encoder (example_opt\<lparr>encoder_type := ''mean''\<rparr>) example_embeddings =
     MeanEncoder 6 example_embeddings \<and>
   make_encoder (example_opt\<lparr>encoder_type := ''brnn''\<rparr>) example_embeddings =
     RNNEncoder ''LSTM'' False 6 512 0.1 example_embeddings False \<and>
   make_decoder example_opt example_embeddings =
     TransformerDecoder 6 512 ''general'' False 0.1 example_embeddings \<and>
   make_decoder (example_opt\<lparr>decoder_type := ''cnn''\<rparr>) example_embeddings =
     CNNDecoder 6 512 ''general'' False 3 0.1 example_embeddings \<and>
   make_decoder (example_opt\<lparr>decoder_type := ''rnn''\<rparr>) example_embeddings =
     InputFeedRNNDecoder ''LSTM'' False 6 512 ''general'' False None False 0.1
       example_embeddings False \<and>
   make_decoder (example_opt\<lparr>decoder_type := ''rnn'', input_feed := 0\<rparr>) example_embeddings =
     StdRNNDecoder ''LSTM'' False 6 512 ''general'' False None False 0.1
       example_embeddings False"
  using make_encoder_make_decoder_dispatch [of example_opt example_embeddings]
    make_encoder_make_decoder_dispatch
      [of "example_opt\<lparr>encoder_type := ''cnn''\<rparr>" example_embeddings]
    make_encoder_make_decoder_dispatch
      [of "example_opt\<lparr>encoder_type := ''mean''\<rparr>" example_embeddings]
    make_encoder_make_decoder_dispatch
      [of "example_opt\<lparr>encoder_type := ''brnn''\<rparr>" example_embeddings]
    make_encoder_make_decoder_dispatch
      [of "example_opt\<lparr>decoder_type := ''cnn''\<rparr>" example_embeddings]
    make_encoder_make_decoder_dispatch
      [of "example_opt\<lparr>decoder_type := ''rnn''\<rparr>" example_embeddings]
    make_encoder_make_decoder_dispatch
      [of "example_opt\<lparr>decoder_type := ''rnn'', input_feed := 0\<rparr>"
         example_embeddings]
  by (simp add: example_opt_def)

text \<open>Claim C4. \<^verbatim>\<open>make_context\<close> returns \<^verbatim>\<open>None\<close> exactly when the context
  type is \<^verbatim>\<open>None\<close>, a \<^verbatim>\<open>ModuleList\<close> of exactly two
  \<^verbatim>\<open>HierarchicalContext\<close> modules when it is "HAN_join", and a single
  \<^verbatim>\<open>HierarchicalContext\<close> for every other context type; each module is built with
  the padding index \<^verbatim>\<open>tgt_dict.stoi[PAD_WORD]\<close> and the token indices of PAD, UNK,
  BOS and EOS, in that order.\<close>

theorem make_context_cases:
  "(let padding_idx = stoi tgt_dict (PAD_WORD io);
        tok = [stoi tgt_dict (PAD_WORD io), UNK io, stoi tgt_dict (BOS_WORD io),
               stoi tgt_dict (EOS_WORD io)];
        hc = HierarchicalContext (rnn_size opt) (dropout opt) (context_type opt)
               (context_size opt) padding_idx tok
    in (make_context io opt tgt_dict = None \<longleftrightarrow> context_type opt = None) \<and>
       (context_type opt = Some ''HAN_join'' \<longrightarrow>
          make_context io opt tgt_dict = Some (ModuleList [hc, hc])) \<and>
       (context_type opt \<noteq> None \<and> context_type opt \<noteq> Some ''HAN_join'' \<longrightarrow>
          make_context io opt tgt_dict = Some (Single hc)))"
  by (simp add: make_context_def Let_def)

theorem make_context_cases_witness:
  "make_context example_io (example_opt\<lparr>context_type := None\<rparr>) example_vocab = None \<and>
   make_context example_io (example_opt\<lparr>context_type := Some ''HAN_join''\<rparr>) example_vocab =
     Some (ModuleList
       [HierarchicalContext 512 0.1 (Some ''HAN_join'') 3 1 [1, 0, 2, 3],
        HierarchicalContext 512 0.1 (Some ''HAN_join'') 3 1 [1, 0, 2, 3]]) \<and>
   make_context example_io example_opt example_vocab =
     Some (Single (HierarchicalContext 512 0.1 (Some ''HAN_enc'') 3 1 [1, 0, 2, 3]))"
  using make_context_cases [of example_vocab example_io "example_opt\<lparr>context_type := None\<rparr>"]
    make_context_cases
      [of example_vocab example_io
         "example_opt\<lparr>context_type := Some ''HAN_join''\<rparr>"]
    make_context_cases [of example_vocab example_io example_opt]
  by (simp add: example_opt_def example_io_def example_vocab_def stoi_def Let_def)


subsection \<open>Unfolding \<^verbatim>\<open>make_base_model\<close>\<close>

lemma decoder_embeddings_make_decoder [simp]:
  "decoder_embeddings (make_decoder opt e) = Some e"
  by (simp add: make_decoder_def)

lemma encoder_embeddings_make_encoder [simp]:
  "encoder_embeddings (make_encoder opt e) = Some e"
  by (simp add: make_encoder_def)

lemma word_lut_weight_set [simp]:
  "word_lut_weight (set_word_lut_weight e w) = w"
  by (cases e) simp

lemma word_lut_weight_make_embeddings:
  "make_embeddings io opt d fs b fresh = (e, fresh') \<Longrightarrow>
     word_lut_weight e = fresh \<and> fresh' = Suc fresh"
  by (auto simp: make_embeddings_def Let_def)

lemma load_or_init_section_Inr:
  assumes "load_or_init_section torch model_opt gpu checkpoint train_part model gen = Inr m"
  shows "nmt m = model \<and> generator_attr m = gen \<and> on_gpu m = gpu \<and>
         model_type_attr m = model_type model_opt"
  using assms
  by (auto simp: load_or_init_section_def split: option.splits sum.splits if_splits)

lemma load_or_init_section_no_assertion:
  "load_or_init_section torch model_opt gpu checkpoint train_part model gen
     \<noteq> Inl (AssertionError msg)"
  by (auto simp: load_or_init_section_def context_model_dict_def freeze_section_def Let_def
      split: option.splits sum.splits if_splits)

lemma make_generator_make_decoder:
  "make_generator model_opt flds (make_decoder model_opt e) fresh =
     Inr (if copy_attn model_opt
          then CopyGenerator (rnn_size model_opt) (tgt_vocab flds) fresh
          else Sequential
                 (Linear (rnn_size model_opt) (len_vocab (tgt_vocab flds))
                    (if share_decoder_embeddings model_opt then word_lut_weight e else fresh))
                 (LogSoftmax 1),
          Suc fresh)"
  by (simp add: make_generator_def Let_def)

lemma make_base_model_Inr:
  assumes "make_base_model io torch model_opt flds gpu checkpoint train_part = Inr m"
  obtains src_dict src_embeddings enc fresh1 tgt_embeddings0 fresh2 tgt_embeddings gen fresh3
  where "model_type model_opt \<in> {''text'', ''img'', ''audio''}"
    and "make_encoder_section io model_opt flds 0 = (src_dict, src_embeddings, Some enc, fresh1)"
    and "make_embeddings io model_opt (tgt_vocab flds) (tgt_feature_vocabs flds) False fresh1
           = (tgt_embeddings0, fresh2)"
    and "share_embeddings_section io model_opt src_dict src_embeddings (tgt_vocab flds)
           tgt_embeddings0 = Inr tgt_embeddings"
    and "make_generator model_opt flds (make_decoder model_opt tgt_embeddings) fresh2
           = Inr (gen, fresh3)"
    and "load_or_init_section torch model_opt gpu checkpoint train_part
           (make_nmt_model model_opt flds gpu enc (make_decoder model_opt tgt_embeddings)
              (make_context io model_opt (tgt_vocab flds))) gen = Inr m"
  using assms unfolding make_base_model_def
  by (auto simp: Let_def split: prod.splits sum.splits option.splits if_splits)

lemma model_encoder_make_nmt_model [simp]:
  "model_encoder (make_nmt_model model_opt flds gpu enc dec ctx) = enc"
  by (simp add: make_nmt_model_def Let_def)

lemma model_decoder_make_nmt_model [simp]:
  "model_decoder (make_nmt_model model_opt flds gpu enc dec ctx) = dec"
  by (simp add: make_nmt_model_def Let_def)

lemma doc_context_make_nmt_model [simp]:
  "doc_context (make_nmt_model model_opt flds gpu enc dec ctx) = ctx"
  by (simp add: make_nmt_model_def Let_def)

lemma dict_eq_iff: "dict_eq a b \<longleftrightarrow> map_of a = map_of b"
proof
  assume eq: "dict_eq a b"
  show "map_of a = map_of b"
  proof
    fix k
    show "map_of a k = map_of b k"
    proof (cases "k \<in> fst ` set a \<union> fst ` set b")
      case True
      with eq show ?thesis by (auto simp: dict_eq_def list_all_iff)
    next
      case False
      then have "map_of a k = None" and "map_of b k = None"
        by (simp_all add: map_of_eq_None_iff)
      then show ?thesis by simp
    qed
  qed
next
  assume "map_of a = map_of b"
  then show "dict_eq a b" by (simp add: dict_eq_def list_all_iff)
qed

lemma vocab_eq_iff:
  "vocab_eq a b \<longleftrightarrow>
     map_of (freqs a) = map_of (freqs b) \<and> map_of (stoi_table a) = map_of (stoi_table b) \<and>
     itos a = itos b"
  by (auto simp: vocab_eq_def dict_eq_iff)

lemma vocab_eq_refl [simp]: "vocab_eq v v"
  by (simp add: vocab_eq_iff)

text \<open>A vocabulary that has the padding word is the same after it is read.\<close>

lemma after_lookup_present:
  "map_of (stoi_table v) w \<noteq> None \<Longrightarrow> after_lookup v w = v"
  by (simp add: after_lookup_def)

lemma make_encoder_section_text:
  "model_type model_opt = ''text'' \<Longrightarrow>
   make_encoder_section io model_opt flds fresh =
     (Some (src_vocab flds),
      Some (fst (make_embeddings io model_opt (src_vocab flds) (src_feature_vocabs flds)
                   True fresh)),
      Some (make_encoder model_opt
              (fst (make_embeddings io model_opt (src_vocab flds) (src_feature_vocabs flds)
                      True fresh))),
      Suc fresh)"
  by (simp add: make_encoder_section_def make_embeddings_def Let_def)

lemma make_encoder_section_img:
  "model_type model_opt = ''img'' \<Longrightarrow>
   make_encoder_section io model_opt flds fresh =
     (None, None,
      Some (ImageEncoder (enc_layers model_opt) (brnn model_opt) (rnn_size model_opt)
              (dropout model_opt)),
      fresh)"
  by (simp add: make_encoder_section_def)

lemma make_encoder_section_audio:
  "model_type model_opt = ''audio'' \<Longrightarrow>
   make_encoder_section io model_opt flds fresh =
     (None, None,
      Some (AudioEncoder (enc_layers model_opt) (brnn model_opt) (rnn_size model_opt)
              (dropout model_opt) (sample_rate model_opt) (window_size model_opt)),
      fresh)"
  by (simp add: make_encoder_section_def)

lemma make_context_None [simp]:
  "make_context io opt d = None \<longleftrightarrow> context_type opt = None"
  by (simp add: make_context_def Let_def)

text \<open>The run returns a model unless the model type is unsupported, embeddings are
  shared without one shared text vocabulary, or the context part is loaded with no
  context type.\<close>

lemma make_base_model_succeeds:
  assumes "model_type model_opt \<in> {''text'', ''img'', ''audio''}"
    and "share_embeddings model_opt \<Longrightarrow>
           model_type model_opt = ''text'' \<and>
           vocab_eq (after_lookup (src_vocab flds) (PAD_WORD io))
             (after_lookup (tgt_vocab flds) (PAD_WORD io))"
    and "checkpoint \<noteq> None \<Longrightarrow> train_part = ''context'' \<Longrightarrow> context_type model_opt \<noteq> None"
  shows "\<exists>m. make_base_model io torch model_opt flds gpu checkpoint train_part = Inr m"
proof -
  obtain src_dict src_embeddings enc fresh1
    where sec: "make_encoder_section io model_opt flds 0 =
                  (src_dict, src_embeddings, Some enc, fresh1)"
      and tx: "model_type model_opt = ''text'' \<Longrightarrow> src_dict = Some (src_vocab flds) \<and>
                  src_embeddings \<noteq> None"
    using assms(1)
    by (auto simp: make_encoder_section_text make_encoder_section_img
          make_encoder_section_audio)
  obtain te0 fresh2
    where emb: "make_embeddings io model_opt (tgt_vocab flds) (tgt_feature_vocabs flds)
                  False fresh1 = (te0, fresh2)"
    by (cases "make_embeddings io model_opt (tgt_vocab flds) (tgt_feature_vocabs flds)
                  False fresh1")
  have "\<exists>te. share_embeddings_section io model_opt src_dict src_embeddings
               (tgt_vocab flds) te0 = Inr te"
  proof (cases "share_embeddings model_opt")
    case True
    with assms(2) tx show ?thesis
      by (auto simp: share_embeddings_section_def)
  next
    case False
    then show ?thesis by (simp add: share_embeddings_section_def)
  qed
  then obtain te where sh: "share_embeddings_section io model_opt src_dict src_embeddings
                         (tgt_vocab flds) te0 = Inr te" ..
  have "\<exists>m. load_or_init_section torch model_opt gpu checkpoint train_part
           (make_nmt_model model_opt flds gpu enc (make_decoder model_opt te)
              (make_context io model_opt (tgt_vocab flds)))
           gen = Inr m" for gen
    using assms(3)
    by (cases checkpoint)
      (auto simp: load_or_init_section_def context_model_dict_def freeze_section_def Let_def
        split: option.splits)
  then show ?thesis
    using assms(1) sec emb sh
    by (simp add: make_base_model_def Let_def make_generator_make_decoder)
qed

subsection \<open>Model type and encoder\<close>

text \<open>Claim C8. \<^verbatim>\<open>make_base_model\<close> fails with the assertion error whose message
  is "Unsupported model type" followed by the type exactly when the model type is
  not one of "text", "img" and "audio". In a model that it returns, the encoder is
  the one \<^verbatim>\<open>make_encoder\<close> builds over the source embeddings for "text", an
  \<^verbatim>\<open>ImageEncoder\<close> for "img" and an \<^verbatim>\<open>AudioEncoder\<close> for "audio".\<close>

theorem make_base_model_model_type:
  "(make_base_model io torch model_opt flds gpu checkpoint train_part =
      Inl (AssertionError (''Unsupported model type '' @ model_type model_opt))
    \<longleftrightarrow> model_type model_opt \<notin> {''text'', ''img'', ''audio''}) \<and>
   (\<forall>m. make_base_model io torch model_opt flds gpu checkpoint train_part = Inr m \<longrightarrow>
      (model_type model_opt = ''text'' \<longrightarrow>
         model_encoder (nmt m) =
           make_encoder model_opt
             (fst (make_embeddings io model_opt (src_vocab flds) (src_feature_vocabs flds)
                     True 0))) \<and>
      (model_type model_opt = ''img'' \<longrightarrow>
         model_encoder (nmt m) =
           ImageEncoder (enc_layers model_opt) (brnn model_opt) (rnn_size model_opt)
             (dropout model_opt)) \<and>
      (model_type model_opt = ''audio'' \<longrightarrow>
         model_encoder (nmt m) =
           AudioEncoder (enc_layers model_opt) (brnn model_opt) (rnn_size model_opt)
             (dropout model_opt) (sample_rate model_opt) (window_size model_opt)))"
proof (intro conjI allI impI)
  show "make_base_model io torch model_opt flds gpu checkpoint train_part =
      Inl (AssertionError (''Unsupported model type '' @ model_type model_opt))
    \<longleftrightarrow> model_type model_opt \<notin> {''text'', ''img'', ''audio''}"
  proof
    assume bad: "model_type model_opt \<notin> {''text'', ''img'', ''audio''}"
    then show "make_base_model io torch model_opt flds gpu checkpoint train_part =
      Inl (AssertionError (''Unsupported model type '' @ model_type model_opt))"
      by (simp add: make_base_model_def)
  next
    assume err: "make_base_model io torch model_opt flds gpu checkpoint train_part =
      Inl (AssertionError (''Unsupported model type '' @ model_type model_opt))"
    show "model_type model_opt \<notin> {''text'', ''img'', ''audio''}"
    proof
      assume ok: "model_type model_opt \<in> {''text'', ''img'', ''audio''}"
      with err show False
        unfolding make_base_model_def
        by (auto simp: Let_def share_embeddings_section_def make_generator_make_decoder
              load_or_init_section_no_assertion
            split: prod.splits sum.splits option.splits if_splits)
    qed
  qed
next
  fix m
  assume r: "make_base_model io torch model_opt flds gpu checkpoint train_part = Inr m"
  from r obtain src_dict src_embeddings enc fresh1 te gen
    where sec: "make_encoder_section io model_opt flds 0 =
                  (src_dict, src_embeddings, Some enc, fresh1)"
      and ld: "load_or_init_section torch model_opt gpu checkpoint train_part
           (make_nmt_model model_opt flds gpu enc (make_decoder model_opt te)
              (make_context io model_opt (tgt_vocab flds))) gen = Inr m"
    by (rule make_base_model_Inr)
  from ld have enc: "model_encoder (nmt m) = enc"
    using load_or_init_section_Inr by fastforce
  { assume "model_type model_opt = ''text''"
    with sec enc show "model_encoder (nmt m) =
           make_encoder model_opt
             (fst (make_embeddings io model_opt (src_vocab flds) (src_feature_vocabs flds)
                     True 0))"
      by (simp add: make_encoder_section_text) }
  { assume "model_type model_opt = ''img''"
    with sec enc show "model_encoder (nmt m) =
           ImageEncoder (enc_layers model_opt) (brnn model_opt) (rnn_size model_opt)
             (dropout model_opt)"
      by (simp add: make_encoder_section_img) }
  { assume "model_type model_opt = ''audio''"
    with sec enc show "model_encoder (nmt m) =
           AudioEncoder (enc_layers model_opt) (brnn model_opt) (rnn_size model_opt)
             (dropout model_opt) (sample_rate model_opt) (window_size model_opt)"
      by (simp add: make_encoder_section_audio) }
qed

theorem make_base_model_model_type_witness:
  "make_base_model example_io example_torch (example_opt\<lparr>model_type := ''video''\<rparr>)
     example_fields False None ''all'' =
     Inl (AssertionError ''Unsupported model type video'') \<and>
   (\<exists>m. make_base_model example_io example_torch example_opt example_fields False None
           ''all'' = Inr m \<and>
        model_encoder (nmt m) =
          TransformerEncoder 6 512 0.1
            (Embeddings 512 True ''concat'' 0.7 (- 1) 0.1 1 [] 3 [] False 0)) \<and>
   (\<exists>m. make_base_model example_io example_torch (example_opt\<lparr>model_type := ''img''\<rparr>)
           example_fields False None ''all'' = Inr m \<and>
        model_encoder (nmt m) = ImageEncoder 6 False 512 0.1) \<and>
   (\<exists>m. make_base_model example_io example_torch (example_opt\<lparr>model_type := ''audio''\<rparr>)
           example_fields False None ''all'' = Inr m \<and>
        model_encoder (nmt m) = AudioEncoder 6 False 512 0.1 16000 0.02)"
proof -
  have a: "make_base_model example_io example_torch (example_opt\<lparr>model_type := ''video''\<rparr>)
     example_fields False None ''all'' =
     Inl (AssertionError ''Unsupported model type video'')"
    using make_base_model_model_type
      [of example_io example_torch "example_opt\<lparr>model_type := ''video''\<rparr>"
         example_fields
         False None "''all''"]
    by (simp add: example_opt_def)
  obtain m1 where m1: "make_base_model example_io example_torch example_opt example_fields
      False None ''all'' = Inr m1"
    using make_base_model_succeeds
      [of example_opt example_fields example_io None "''all''" example_torch False]
    by (auto simp: example_opt_def)
  obtain m2 where m2: "make_base_model example_io example_torch
      (example_opt\<lparr>model_type := ''img''\<rparr>) example_fields False None ''all'' = Inr m2"
    using make_base_model_succeeds
      [of "example_opt\<lparr>model_type := ''img''\<rparr>" example_fields example_io
         None "''all''" example_torch False]
    by (auto simp: example_opt_def)
  obtain m3 where m3: "make_base_model example_io example_torch
      (example_opt\<lparr>model_type := ''audio''\<rparr>) example_fields False None ''all'' = Inr m3"
    using make_base_model_succeeds
      [of "example_opt\<lparr>model_type := ''audio''\<rparr>" example_fields example_io
         None "''all''" example_torch False]
    by (auto simp: example_opt_def)
  have b: "model_encoder (nmt m1) =
          TransformerEncoder 6 512 0.1
            (Embeddings 512 True ''concat'' 0.7 (- 1) 0.1 1 [] 3 [] False 0)"
    using make_base_model_model_type
      [of example_io example_torch example_opt example_fields False None "''all''"] m1
    by (simp add: example_opt_def example_fields_def example_io_def other_vocab_def
          make_encoder_def make_embeddings_def stoi_def len_vocab_def Let_def)
  have c: "model_encoder (nmt m2) = ImageEncoder 6 False 512 0.1"
    using make_base_model_model_type
      [of example_io example_torch "example_opt\<lparr>model_type := ''img''\<rparr>"
         example_fields
         False None "''all''"] m2
    by (simp add: example_opt_def)
  have d: "model_encoder (nmt m3) = AudioEncoder 6 False 512 0.1 16000 0.02"
    using make_base_model_model_type
      [of example_io example_torch "example_opt\<lparr>model_type := ''audio''\<rparr>"
         example_fields
         False None "''all''"] m3
    by (simp add: example_opt_def)
  from a b c d m1 m2 m3 show ?thesis by blast
qed

subsection \<open>Shared embeddings\<close>

text \<open>Claim C10. With \<^verbatim>\<open>share_embeddings\<close> set and model type "img" or
  "audio", \<^verbatim>\<open>make_base_model\<close> builds no model: it fails at the comparison of the
  vocabularies, where \<^verbatim>\<open>src_dict\<close> is unbound. Hence a run with
  \<^verbatim>\<open>share_embeddings\<close> set that returns a model is a text model.\<close>

theorem share_embeddings_unbound_for_img_audio:
  assumes "share_embeddings model_opt"
  shows "(model_type model_opt \<in> {''img'', ''audio''} \<longrightarrow>
            make_base_model io torch model_opt flds gpu checkpoint train_part =
              Inl (UnboundLocalError ''src_dict'')) \<and>
         (\<forall>m. make_base_model io torch model_opt flds gpu checkpoint train_part = Inr m \<longrightarrow>
            model_type model_opt = ''text'')"
proof (intro conjI allI impI)
  assume "model_type model_opt \<in> {''img'', ''audio''}"
  with assms show "make_base_model io torch model_opt flds gpu checkpoint train_part =
              Inl (UnboundLocalError ''src_dict'')"
    by (auto simp: make_base_model_def make_encoder_section_img make_encoder_section_audio
          share_embeddings_section_def Let_def split: prod.splits)
next
  fix m
  assume r: "make_base_model io torch model_opt flds gpu checkpoint train_part = Inr m"
  from r obtain src_dict src_embeddings enc fresh1 te0 te
    where mt: "model_type model_opt \<in> {''text'', ''img'', ''audio''}"
      and sec: "make_encoder_section io model_opt flds 0 =
                  (src_dict, src_embeddings, Some enc, fresh1)"
      and sh: "share_embeddings_section io model_opt src_dict src_embeddings (tgt_vocab flds)
           te0 = Inr te"
    by (rule make_base_model_Inr)
  show "model_type model_opt = ''text''"
  proof (rule ccontr)
    assume "model_type model_opt \<noteq> ''text''"
    with mt sec have "src_dict = None"
      by (auto simp: make_encoder_section_img make_encoder_section_audio)
    with sh assms show False
      by (simp add: share_embeddings_section_def)
  qed
qed

theorem share_embeddings_unbound_for_img_audio_witness:
  "make_base_model example_io example_torch
     (example_opt\<lparr>model_type := ''img'', share_embeddings := True\<rparr>) shared_fields False None
     ''all'' = Inl (UnboundLocalError ''src_dict'') \<and>
   make_base_model example_io example_torch
     (example_opt\<lparr>model_type := ''audio'', share_embeddings := True\<rparr>) shared_fields False
     None ''all'' = Inl (UnboundLocalError ''src_dict'') \<and>
   (\<exists>m. make_base_model example_io example_torch (example_opt\<lparr>share_embeddings := True\<rparr>)
           shared_fields False None ''all'' = Inr m \<and>
        model_type (example_opt\<lparr>share_embeddings := True\<rparr>) = ''text'')"
proof -
  have a: "make_base_model example_io example_torch
     (example_opt\<lparr>model_type := ''img'', share_embeddings := True\<rparr>) shared_fields False None
     ''all'' = Inl (UnboundLocalError ''src_dict'')"
    using share_embeddings_unbound_for_img_audio
      [of "example_opt\<lparr>model_type := ''img'', share_embeddings := True\<rparr>"
         example_io
         example_torch shared_fields False None "''all''"]
    by (simp add: example_opt_def)
  have b: "make_base_model example_io example_torch
     (example_opt\<lparr>model_type := ''audio'', share_embeddings := True\<rparr>) shared_fields False
     None ''all'' = Inl (UnboundLocalError ''src_dict'')"
    using share_embeddings_unbound_for_img_audio
      [of "example_opt\<lparr>model_type := ''audio'', share_embeddings := True\<rparr>"
         example_io
         example_torch shared_fields False None "''all''"]
    by (simp add: example_opt_def)
  obtain m where m: "make_base_model example_io example_torch
      (example_opt\<lparr>share_embeddings := True\<rparr>) shared_fields False None ''all'' = Inr m"
    using make_base_model_succeeds
      [of "example_opt\<lparr>share_embeddings := True\<rparr>" shared_fields example_io
         None "''all''" example_torch False]
    by (auto simp: example_opt_def shared_fields_def)
  have c: "model_type (example_opt\<lparr>share_embeddings := True\<rparr>) = ''text''"
    using share_embeddings_unbound_for_img_audio
      [of "example_opt\<lparr>share_embeddings := True\<rparr>" example_io
         example_torch shared_fields False None "''all''"] m
    by simp
  from a b c m show ?thesis by blast
qed



subsection \<open>The generator\<close>

text \<open>Claim C6. In a model that \<^verbatim>\<open>make_base_model\<close> returns, the generator's
  linear weight is the identical object as the decoder embeddings' word-lookup weight
  exactly when \<^verbatim>\<open>share_decoder_embeddings\<close> is set and \<^verbatim>\<open>copy_attn\<close> is not.
  With \<^verbatim>\<open>copy_attn\<close> the generator is a \<^verbatim>\<open>CopyGenerator\<close> over the target
  vocabulary; otherwise it is a linear layer from \<^verbatim>\<open>rnn_size\<close> to the size of the
  target vocabulary followed by \<^verbatim>\<open>LogSoftmax(dim=1)\<close>.\<close>

theorem generator_weight_tying:
  assumes "make_base_model io torch model_opt flds gpu checkpoint train_part = Inr m"
  shows "\<exists>e w. decoder_embeddings (model_decoder (nmt m)) = Some e \<and>
           (generator_linear_weight (generator_attr m) = word_lut_weight e \<longleftrightarrow>
              share_decoder_embeddings model_opt \<and> \<not> copy_attn model_opt) \<and>
           (copy_attn model_opt \<longrightarrow>
              generator_attr m = CopyGenerator (rnn_size model_opt) (tgt_vocab flds) w) \<and>
           (\<not> copy_attn model_opt \<longrightarrow>
              generator_attr m =
                Sequential
                  (Linear (rnn_size model_opt) (len_vocab (tgt_vocab flds))
                     (if share_decoder_embeddings model_opt then word_lut_weight e else w))
                  (LogSoftmax 1))"
proof -
  from assms obtain src_dict src_embeddings enc fresh1 te0 fresh2 te gen fresh3
    where mt: "model_type model_opt \<in> {''text'', ''img'', ''audio''}"
      and sec: "make_encoder_section io model_opt flds 0 =
                  (src_dict, src_embeddings, Some enc, fresh1)"
      and emb: "make_embeddings io model_opt (tgt_vocab flds) (tgt_feature_vocabs flds)
                  False fresh1 = (te0, fresh2)"
      and sh: "share_embeddings_section io model_opt src_dict src_embeddings (tgt_vocab flds)
                 te0 = Inr te"
      and gn: "make_generator model_opt flds (make_decoder model_opt te) fresh2
                 = Inr (gen, fresh3)"
      and ld: "load_or_init_section torch model_opt gpu checkpoint train_part
           (make_nmt_model model_opt flds gpu enc (make_decoder model_opt te)
              (make_context io model_opt (tgt_vocab flds))) gen = Inr m"
    by (rule make_base_model_Inr)
  from ld have nm: "nmt m = make_nmt_model model_opt flds gpu enc (make_decoder model_opt te)
              (make_context io model_opt (tgt_vocab flds))"
    and g: "generator_attr m = gen"
    using load_or_init_section_Inr by fastforce+
  from emb have w0: "word_lut_weight te0 = fresh1" and f2: "fresh2 = Suc fresh1"
    using word_lut_weight_make_embeddings by blast+
  have "word_lut_weight te < fresh2"
  proof (cases "share_embeddings model_opt")
    case False
    with sh w0 f2 show ?thesis by (simp add: share_embeddings_section_def)
  next
    case True
    with sh obtain se where "src_embeddings = Some se" "word_lut_weight te = word_lut_weight se"
      by (auto simp: share_embeddings_section_def split: option.splits if_splits)
    moreover from this sec mt have "word_lut_weight se = 0"
      by (auto simp: make_encoder_section_text make_encoder_section_img
            make_encoder_section_audio make_embeddings_def Let_def)
    ultimately show ?thesis using f2 by simp
  qed
  then have ne: "fresh2 \<noteq> word_lut_weight te" by simp
  from gn have "gen = (if copy_attn model_opt
          then CopyGenerator (rnn_size model_opt) (tgt_vocab flds) fresh2
          else Sequential
                 (Linear (rnn_size model_opt) (len_vocab (tgt_vocab flds))
                    (if share_decoder_embeddings model_opt then word_lut_weight te else fresh2))
                 (LogSoftmax 1))"
    by (simp add: make_generator_make_decoder)
  with nm g ne show ?thesis
    by (intro exI [of _ te] exI [of _ fresh2]) simp
qed

theorem generator_weight_tying_witness:
  "(\<exists>m e. make_base_model example_io example_torch
             (example_opt\<lparr>share_decoder_embeddings := True\<rparr>) example_fields False None
             ''all'' = Inr m \<and>
      decoder_embeddings (model_decoder (nmt m)) = Some e \<and>
      generator_linear_weight (generator_attr m) = word_lut_weight e \<and>
      generator_attr m = Sequential (Linear 512 5 (word_lut_weight e)) (LogSoftmax 1)) \<and>
   (\<exists>m e w. make_base_model example_io example_torch example_opt example_fields False None
             ''all'' = Inr m \<and>
      decoder_embeddings (model_decoder (nmt m)) = Some e \<and>
      generator_linear_weight (generator_attr m) \<noteq> word_lut_weight e \<and>
      generator_attr m = Sequential (Linear 512 5 w) (LogSoftmax 1)) \<and>
   (\<exists>m e w. make_base_model example_io example_torch
             (example_opt\<lparr>share_decoder_embeddings := True, copy_attn := True\<rparr>)
             example_fields False None ''all'' = Inr m \<and>
      decoder_embeddings (model_decoder (nmt m)) = Some e \<and>
      generator_linear_weight (generator_attr m) \<noteq> word_lut_weight e \<and>
      generator_attr m = CopyGenerator 512 example_vocab w)"
proof -
  obtain m1 where m1: "make_base_model example_io example_torch
      (example_opt\<lparr>share_decoder_embeddings := True\<rparr>) example_fields False None ''all''
      = Inr m1"
    using make_base_model_succeeds
      [of "example_opt\<lparr>share_decoder_embeddings := True\<rparr>" example_fields
         example_io None "''all''" example_torch False]
    by (auto simp: example_opt_def)
  obtain m2 where m2: "make_base_model example_io example_torch example_opt example_fields
      False None ''all'' = Inr m2"
    using make_base_model_succeeds
      [of example_opt example_fields example_io None "''all''" example_torch False]
    by (auto simp: example_opt_def)
  obtain m3 where m3: "make_base_model example_io example_torch
      (example_opt\<lparr>share_decoder_embeddings := True, copy_attn := True\<rparr>) example_fields False
      None ''all'' = Inr m3"
    using make_base_model_succeeds
      [of
         "example_opt\<lparr>share_decoder_embeddings := True, copy_attn := True\<rparr>" example_fields example_io None "''all''" example_torch False]
    by (auto simp: example_opt_def)
  have a: "\<exists>e. decoder_embeddings (model_decoder (nmt m1)) = Some e \<and>
      generator_linear_weight (generator_attr m1) = word_lut_weight e \<and>
      generator_attr m1 = Sequential (Linear 512 5 (word_lut_weight e)) (LogSoftmax 1)"
    using generator_weight_tying [OF m1]
    by (auto simp: example_opt_def example_fields_def example_vocab_def len_vocab_def)
  have b: "\<exists>e w. decoder_embeddings (model_decoder (nmt m2)) = Some e \<and>
      generator_linear_weight (generator_attr m2) \<noteq> word_lut_weight e \<and>
      generator_attr m2 = Sequential (Linear 512 5 w) (LogSoftmax 1)"
    using generator_weight_tying [OF m2]
    by (auto simp: example_opt_def example_fields_def example_vocab_def len_vocab_def)
  have c: "\<exists>e w. decoder_embeddings (model_decoder (nmt m3)) = Some e \<and>
      generator_linear_weight (generator_attr m3) \<noteq> word_lut_weight e \<and>
      generator_attr m3 = CopyGenerator 512 example_vocab w"
    using generator_weight_tying [OF m3]
    by (auto simp: example_opt_def example_fields_def)
  from a b c m1 m2 m3 show ?thesis by blast
qed

subsection \<open>Dictionaries and the parameter loops\<close>

lemma map_of_dict_update:
  "map_of (dict_update d e) k =
     (case map_of (rev e) k of Some v \<Rightarrow> Some v | None \<Rightarrow> map_of d k)"
proof (induction e arbitrary: d)
  case Nil
  then show ?case by (simp add: dict_update_def)
next
  case (Cons kv e)
  have "dict_update d (kv # e) = dict_update (AList.update (fst kv) (snd kv) d) e"
    by (simp add: dict_update_def case_prod_beta)
  with Cons.IH [of "AList.update (fst kv) (snd kv) d"] show ?case
    by (cases kv) (auto simp: AList.update_conv' map_add_def split: option.splits)
qed

lemma map_of_rev_distinct:
  "distinct (map fst e) \<Longrightarrow> map_of (rev e) k = map_of e k"
proof (induction e)
  case Nil
  then show ?case by simp
next
  case (Cons kv e)
  then have "map_of e (fst kv) = None"
    by (simp add: map_of_eq_None_iff)
  with Cons show ?case
    by (cases kv) (auto simp: map_add_def split: option.splits)
qed

lemma distinct_keys_dict_update:
  "distinct (map fst d) \<Longrightarrow> distinct (map fst (dict_update d e))"
proof (induction e arbitrary: d)
  case Nil
  then show ?case by (simp add: dict_update_def)
next
  case (Cons kv e)
  have "dict_update d (kv # e) = dict_update (AList.update (fst kv) (snd kv) d) e"
    by (simp add: dict_update_def case_prod_beta)
  with Cons show ?case by (simp add: AList.distinct_update)
qed

lemma map_of_filter_keys:
  "map_of (filter (\<lambda>(k, v). P k) items) k = (if P k then map_of items k else None)"
  by (induction items) auto

lemma pretrained_plain_conv:
  "pretrained_plain model_dict items =
     dict_update []
       (filter (\<lambda>(k, v). key_in k model_dict \<and> \<not> str_in ''doc_context'' k) items)"
  by (simp add: pretrained_plain_def dict_update_def)

lemma map_of_pretrained_plain:
  assumes "distinct (map fst items)"
  shows "map_of (pretrained_plain model_dict items) k =
     (if key_in k model_dict \<and> \<not> str_in ''doc_context'' k then map_of items k else None)"
proof -
  let ?P = "\<lambda>k. key_in k model_dict \<and> \<not> str_in ''doc_context'' k"
  from assms have "distinct (map fst (filter (\<lambda>(k, v). ?P k) items))"
    by (simp add: distinct_map_filter)
  then have "map_of (rev (filter (\<lambda>(k, v). ?P k) items)) k =
             map_of (filter (\<lambda>(k, v). ?P k) items) k"
    by (rule map_of_rev_distinct)
  then show ?thesis
    by (simp add: pretrained_plain_conv map_of_dict_update map_of_filter_keys
          split: option.splits)
qed

lemma distinct_keys_pretrained_plain:
  "distinct (map fst (pretrained_plain model_dict items))"
  by (simp add: pretrained_plain_conv distinct_keys_dict_update)

lemma map_of_load_state_dict:
  "map_of (load_state_dict own d) k =
     (case map_of own k of
        None \<Rightarrow> None
      | Some v \<Rightarrow> Some (case map_of d k of Some v' \<Rightarrow> v' | None \<Rightarrow> v))"
  by (induction own) (auto simp: load_state_dict_def split: option.splits)

text \<open>The loops touch one attribute each.\<close>

lemma fold_set_require_grad:
  "requires_grad (fold (set_require_grad b) ps st p) = requires_grad (st p) \<and>
   inits (fold (set_require_grad b) ps st p) = inits (st p) \<and>
   p_dim (fold (set_require_grad b) ps st p) = p_dim (st p) \<and>
   require_grad (fold (set_require_grad b) ps st p) =
     (if p \<in> set ps then Some b else require_grad (st p))"
  by (induction ps arbitrary: st) (auto simp: set_require_grad_def)

lemma fold_uniform_init:
  "requires_grad (fold (uniform_init lo hi) ps st p) = requires_grad (st p) \<and>
   require_grad (fold (uniform_init lo hi) ps st p) = require_grad (st p) \<and>
   p_dim (fold (uniform_init lo hi) ps st p) = p_dim (st p) \<and>
   inits (fold (uniform_init lo hi) ps st p) =
     inits (st p) @ replicate (count_list ps p) (Uniform lo hi)"
  by (induction ps arbitrary: st) (auto simp: uniform_init_def replicate_app_Cons_same)

lemma fold_xavier_if_matrix:
  "requires_grad (fold xavier_if_matrix ps st p) = requires_grad (st p) \<and>
   require_grad (fold xavier_if_matrix ps st p) = require_grad (st p) \<and>
   p_dim (fold xavier_if_matrix ps st p) = p_dim (st p) \<and>
   inits (fold xavier_if_matrix ps st p) =
     inits (st p) @ replicate (if 1 < p_dim (st p) then count_list ps p else 0) Xavier"
  by (induction ps arbitrary: st)
    (auto simp: xavier_if_matrix_def xavier_uniform_def replicate_app_Cons_same)

text \<open>One pass of the unfreezing loop draws uniformly when \<^verbatim>\<open>param_init\<close> is not
  zero and then, for a parameter with more than one dimension, Xavier when
  \<^verbatim>\<open>param_init_glorot\<close> is set.\<close>

lemma unfreeze_step_at:
  "requires_grad (unfreeze_step model_opt q st p) = requires_grad (st p) \<and>
   p_dim (unfreeze_step model_opt q st p) = p_dim (st p) \<and>
   require_grad (unfreeze_step model_opt q st p) =
     (if p = q then Some True else require_grad (st p)) \<and>
   inits (unfreeze_step model_opt q st p) =
     inits (st p) @
       (if p = q
        then (if param_init model_opt \<noteq> 0
              then [Uniform (- param_init model_opt) (param_init model_opt)] else []) @
             (if param_init_glorot model_opt \<and> 1 < p_dim (st p) then [Xavier] else [])
        else [])"
  by (simp add: unfreeze_step_def Let_def set_require_grad_def
        uniform_init_def xavier_if_matrix_def xavier_uniform_def)

lemma fold_unfreeze_step:
  "requires_grad (fold (unfreeze_step model_opt) ps st p) = requires_grad (st p) \<and>
   p_dim (fold (unfreeze_step model_opt) ps st p) = p_dim (st p) \<and>
   require_grad (fold (unfreeze_step model_opt) ps st p) =
     (if p \<in> set ps then Some True else require_grad (st p)) \<and>
   inits (fold (unfreeze_step model_opt) ps st p) =
     inits (st p) @
       concat (replicate (count_list ps p)
         ((if param_init model_opt \<noteq> 0
           then [Uniform (- param_init model_opt) (param_init model_opt)] else []) @
          (if param_init_glorot model_opt \<and> 1 < p_dim (st p) then [Xavier] else [])))"
proof (induction ps arbitrary: st)
  case Nil
  then show ?case by simp
next
  case (Cons q ps)
  show ?case
    using Cons.IH [of "unfreeze_step model_opt q st"] unfreeze_step_at [of model_opt q st p]
    by auto
qed

text \<open>What a returned model holds, by the way it was called.\<close>

lemma make_base_model_no_checkpoint:
  assumes "make_base_model io torch model_opt flds gpu None train_part = Inr m"
  shows "params m = init_section model_opt torch \<and>
         pretrained_calls m = pretrained_section model_opt (nmt m) \<and>
         state m = state_dict torch \<and> loaded_dict m = None"
proof -
  from assms obtain model gen
    where "load_or_init_section torch model_opt gpu None train_part model gen = Inr m"
    by (rule make_base_model_Inr)
  then show ?thesis
    by (auto simp: load_or_init_section_def)
qed

lemma make_base_model_checkpoint_all:
  assumes "make_base_model io torch model_opt flds gpu (Some ck) train_part = Inr m"
    and "train_part \<noteq> ''context''"
  shows "params m = parameters torch \<and> pretrained_calls m = [] \<and>
         loaded_dict m = Some (ck_model ck) \<and>
         state m = load_state_dict (state_dict torch) (ck_model ck)"
proof -
  from assms(1) obtain model gen
    where "load_or_init_section torch model_opt gpu (Some ck) train_part model gen = Inr m"
    by (rule make_base_model_Inr)
  with assms(2) show ?thesis
    by (auto simp: load_or_init_section_def)
qed

lemma load_or_init_section_context:
  assumes "load_or_init_section torch model_opt gpu (Some ck) ''context'' model gen = Inr m"
  shows "\<exists>d ps. context_model_dict model_opt (state_dict torch) ck = Inr d \<and>
           freeze_section model_opt torch model = Inr ps \<and>
           loaded_dict m = Some d \<and>
           state m = load_state_dict (state_dict torch) d \<and>
           params m = ps \<and> pretrained_calls m = []"
proof (cases "context_model_dict model_opt (state_dict torch) ck")
  case (Inl e)
  with assms show ?thesis by (simp add: load_or_init_section_def)
next
  case d: (Inr d)
  show ?thesis
  proof (cases "freeze_section model_opt torch model")
    case (Inl e)
    with assms d show ?thesis by (simp add: load_or_init_section_def)
  next
    case (Inr ps)
    with assms d show ?thesis by (auto simp: load_or_init_section_def)
  qed
qed

lemma context_model_dict_Inr:
  assumes "context_model_dict model_opt model_state ck = Inr d"
  shows "\<exists>ct. context_type model_opt = Some ct \<and>
           d = dict_update model_state
                 (if str_in ''join'' ct
                  then pretrained_join model_state (ck_model ck)
                  else pretrained_plain model_state (ck_model ck))"
proof (cases "context_type model_opt")
  case None
  with assms show ?thesis by (simp add: context_model_dict_def)
next
  case (Some ct)
  with assms show ?thesis by (simp add: context_model_dict_def Let_def)
qed

lemma freeze_section_Inr:
  assumes "freeze_section model_opt torch model = Inr ps"
  shows "ps = fold (unfreeze_step model_opt) (doc_context_parameters torch)
               (fold (set_require_grad False) (generator_parameters torch)
                  (fold (set_require_grad False) (model_parameters torch)
                     (parameters torch)))"
proof (cases "doc_context model")
  case None
  with assms show ?thesis by (simp add: freeze_section_def Let_def)
next
  case (Some c)
  with assms show ?thesis by (simp add: freeze_section_def Let_def)
qed

lemma make_base_model_checkpoint_context:
  assumes "make_base_model io torch model_opt flds gpu (Some ck) ''context'' = Inr m"
  shows "\<exists>ct. context_type model_opt = Some ct \<and>
           loaded_dict m =
             Some (dict_update (state_dict torch)
                     (if str_in ''join'' ct
                      then pretrained_join (state_dict torch) (ck_model ck)
                      else pretrained_plain (state_dict torch) (ck_model ck))) \<and>
           state m =
             load_state_dict (state_dict torch)
               (dict_update (state_dict torch)
                  (if str_in ''join'' ct
                   then pretrained_join (state_dict torch) (ck_model ck)
                   else pretrained_plain (state_dict torch) (ck_model ck))) \<and>
           pretrained_calls m = [] \<and>
           params m =
             fold (unfreeze_step model_opt) (doc_context_parameters torch)
               (fold (set_require_grad False) (generator_parameters torch)
                  (fold (set_require_grad False) (model_parameters torch)
                     (parameters torch)))"
proof -
  from assms obtain model gen
    where "load_or_init_section torch model_opt gpu (Some ck) ''context'' model gen = Inr m"
    by (rule make_base_model_Inr)
  then obtain d ps
    where cm: "context_model_dict model_opt (state_dict torch) ck = Inr d"
      and fr: "freeze_section model_opt torch model = Inr ps"
      and m: "loaded_dict m = Some d" "state m = load_state_dict (state_dict torch) d"
        "params m = ps" "pretrained_calls m = []"
    using load_or_init_section_context by blast
  from context_model_dict_Inr [OF cm] obtain ct
    where ct: "context_type model_opt = Some ct"
      and d: "d = dict_update (state_dict torch)
                 (if str_in ''join'' ct
                  then pretrained_join (state_dict torch) (ck_model ck)
                  else pretrained_plain (state_dict torch) (ck_model ck))"
    by blast
  from freeze_section_Inr [OF fr] m ct d show ?thesis
    by (intro exI [of _ ct]) (simp only: simp_thms)
qed

text \<open>Loading the context part needs a context type: with \<^verbatim>\<open>None\<close> the test
  \<^verbatim>\<open>'join' in model_opt.context_type\<close> raises.\<close>

lemma context_part_needs_context_type:
  assumes "make_base_model io torch model_opt flds gpu (Some ck) ''context'' = Inr m"
  shows "context_type model_opt \<noteq> None"
  using make_base_model_checkpoint_context [OF assms] by auto

lemma context_model_dict_None:
  "context_type model_opt = None \<Longrightarrow>
     context_model_dict model_opt model_state ck = Inl (TypeError ''context_type'')"
  by (simp add: context_model_dict_def)

text \<open>No run changes the attribute \<^verbatim>\<open>requires_grad\<close> of any parameter.\<close>

lemma make_base_model_requires_grad:
  assumes "make_base_model io torch model_opt flds gpu checkpoint train_part = Inr m"
  shows "requires_grad (params m p) = requires_grad (parameters torch p)"
proof (cases checkpoint)
  case None
  with assms have "params m = init_section model_opt torch"
    using make_base_model_no_checkpoint by blast
  then show ?thesis
    by (simp add: init_section_def Let_def fold_uniform_init fold_xavier_if_matrix)
next
  case (Some ck)
  show ?thesis
  proof (cases "train_part = ''context''")
    case True
    with assms Some show ?thesis
      using make_base_model_checkpoint_context [of io torch model_opt flds gpu ck m]
      by (auto simp: fold_unfreeze_step fold_set_require_grad)
  next
    case False
    with assms Some show ?thesis
      using make_base_model_checkpoint_all [of io torch model_opt flds gpu ck train_part m]
      by simp
  qed
qed

subsection \<open>Loading the context part from a checkpoint\<close>

text \<open>Claim C5. When \<^verbatim>\<open>make_base_model\<close> is called with a checkpoint,
  \<^verbatim>\<open>train_part = "context"\<close> and a context type that does not contain "join", no
  checkpoint entry whose key contains "doc_context" is applied: in the dictionary
  that is loaded and in the model state after loading, every such key has what the
  freshly built model had. Every key without "doc_context" that is in both the
  checkpoint and the model state has the checkpoint's tensor after loading. The
  checkpoint is a dictionary: its keys are distinct.\<close>

theorem context_part_plain_loading:
  assumes "make_base_model io torch model_opt flds gpu (Some ck) ''context'' = Inr m"
    and "context_type model_opt = Some ct"
    and "\<not> str_in ''join'' ct"
    and "distinct (map fst (ck_model ck))"
  shows "(\<forall>k. str_in ''doc_context'' k \<longrightarrow>
            map_of (state m) k = map_of (state_dict torch) k \<and>
            (\<exists>d. loaded_dict m = Some d \<and> map_of d k = map_of (state_dict torch) k)) \<and>
         (\<forall>k. \<not> str_in ''doc_context'' k \<and> key_in k (ck_model ck) \<and>
               key_in k (state_dict torch) \<longrightarrow>
            map_of (state m) k = map_of (ck_model ck) k)"
proof -
  let ?pre = "pretrained_plain (state_dict torch) (ck_model ck)"
  let ?d = "dict_update (state_dict torch) ?pre"
  from make_base_model_checkpoint_context [OF assms(1)] assms(2,3)
  have ld: "loaded_dict m = Some ?d"
    and st: "state m = load_state_dict (state_dict torch) ?d"
    by auto
  have pre: "map_of (rev ?pre) k = map_of ?pre k" for k
    by (rule map_of_rev_distinct) (rule distinct_keys_pretrained_plain)
  have d: "map_of ?d k =
      (if key_in k (state_dict torch) \<and> \<not> str_in ''doc_context'' k \<and> key_in k (ck_model ck)
       then map_of (ck_model ck) k else map_of (state_dict torch) k)" for k
    using assms(4)
    by (auto simp: map_of_dict_update pre map_of_pretrained_plain key_in_def
        split: option.splits)
  show ?thesis
  proof (intro conjI allI impI)
    fix k assume "str_in ''doc_context'' k"
    then have dk: "map_of ?d k = map_of (state_dict torch) k"
      by (simp add: d)
    then show "map_of (state m) k = map_of (state_dict torch) k"
      by (simp add: st map_of_load_state_dict split: option.splits)
    from dk ld show "\<exists>d. loaded_dict m = Some d \<and> map_of d k = map_of (state_dict torch) k"
      by simp
  next
    fix k
    assume "\<not> str_in ''doc_context'' k \<and> key_in k (ck_model ck) \<and>
            key_in k (state_dict torch)"
    then show "map_of (state m) k = map_of (ck_model ck) k"
      by (auto simp: st map_of_load_state_dict d key_in_def split: option.splits)
  qed
qed

theorem context_part_plain_loading_witness:
  "\<exists>m. make_base_model example_io example_torch example_opt example_fields False
          (Some example_checkpoint) ''context'' = Inr m \<and>
       map_of (state m) ''doc_context.w'' = Some 3 \<and>
       map_of (state m) ''doc_context.b'' = Some 2 \<and>
       map_of (state m) ''encoder.w'' = Some 100"
proof -
  obtain m where m: "make_base_model example_io example_torch example_opt example_fields
      False (Some example_checkpoint) ''context'' = Inr m"
    using make_base_model_succeeds
      [of example_opt example_fields example_io "Some example_checkpoint" "''context''"
         example_torch False]
    by (auto simp: example_opt_def)
  have ct: "context_type example_opt = Some ''HAN_enc''"
    by (simp add: example_opt_def)
  have nj: "\<not> str_in ''join'' ''HAN_enc''"
    by simp
  have di: "distinct (map fst (ck_model example_checkpoint))"
    by (simp add: example_checkpoint_def)
  note th = context_part_plain_loading [OF m ct nj di]
  have a: "map_of (state m) ''doc_context.w'' = Some 3"
    using th by (simp add: example_torch_def)
  have b: "map_of (state m) ''doc_context.b'' = Some 2"
    using th by (simp add: example_torch_def)
  have "\<not> str_in ''doc_context'' ''encoder.w'' \<and>
        key_in ''encoder.w'' (ck_model example_checkpoint) \<and>
        key_in ''encoder.w'' (state_dict example_torch)"
    by (simp add: key_in_def example_checkpoint_def example_torch_def)
  with th have c: "map_of (state m) ''encoder.w'' = Some 100"
    by (simp add: example_checkpoint_def)
  from m a b c show ?thesis by blast
qed

lemma make_base_model_embeddings_attr:
  assumes "make_base_model io torch model_opt flds gpu checkpoint train_part = Inr m"
  shows "(encoder_embeddings (model_encoder (nmt m)) = None \<longleftrightarrow>
            model_type model_opt \<noteq> ''text'') \<and>
         decoder_embeddings (model_decoder (nmt m)) \<noteq> None"
proof -
  from assms obtain src_dict src_embeddings enc fresh1 te gen
    where mt: "model_type model_opt \<in> {''text'', ''img'', ''audio''}"
      and sec: "make_encoder_section io model_opt flds 0 =
                  (src_dict, src_embeddings, Some enc, fresh1)"
      and ld: "load_or_init_section torch model_opt gpu checkpoint train_part
           (make_nmt_model model_opt flds gpu enc (make_decoder model_opt te)
              (make_context io model_opt (tgt_vocab flds))) gen = Inr m"
    by (rule make_base_model_Inr)
  from ld have nm: "nmt m = make_nmt_model model_opt flds gpu enc (make_decoder model_opt te)
              (make_context io model_opt (tgt_vocab flds))"
    using load_or_init_section_Inr by fastforce
  from mt sec have "encoder_embeddings enc = None \<longleftrightarrow> model_type model_opt \<noteq> ''text''"
    by (auto simp: make_encoder_section_text make_encoder_section_img
          make_encoder_section_audio)
  with nm show ?thesis by simp
qed

subsection \<open>Initialisation\<close>

text \<open>Claim C7. Without a checkpoint, when \<^verbatim>\<open>param_init\<close> is not zero every
  parameter of the model and of the generator is drawn uniformly from
  \<^verbatim>\<open>[-param_init, param_init]\<close>, once for each list it is in; when
  \<^verbatim>\<open>param_init_glorot\<close> is set every such parameter with more than one dimension
  is then drawn by Xavier; no other parameter is touched; and afterwards the
  pretrained word vectors are loaded into the encoder embeddings and the decoder
  embeddings, for each of the two that has the attribute \<^verbatim>\<open>embeddings\<close>. With a
  checkpoint no pretrained vectors are loaded and no parameter is drawn, except that
  under \<^verbatim>\<open>train_part = "context"\<close> each parameter of the context module is drawn
  by the same two rules.\<close>

theorem initialisation_policy:
  assumes "make_base_model io torch model_opt flds gpu checkpoint train_part = Inr m"
  shows "(checkpoint = None \<longrightarrow>
           (\<forall>p. inits (params m p) =
                  inits (parameters torch p) @
                  replicate
                    (if param_init model_opt \<noteq> 0
                     then count_list (model_parameters torch @ generator_parameters torch) p
                     else 0)
                    (Uniform (- param_init model_opt) (param_init model_opt)) @
                  replicate
                    (if param_init_glorot model_opt \<and> 1 < p_dim (parameters torch p)
                     then count_list (model_parameters torch @ generator_parameters torch) p
                     else 0)
                    Xavier) \<and>
           pretrained_calls m =
             (case encoder_embeddings (model_encoder (nmt m)) of
                Some e \<Rightarrow> [LoadPretrained e (pre_word_vecs_enc model_opt)
                             (fix_word_vecs_enc model_opt)]
              | None \<Rightarrow> []) @
             (case decoder_embeddings (model_decoder (nmt m)) of
                Some e \<Rightarrow> [LoadPretrained e (pre_word_vecs_dec model_opt)
                             (fix_word_vecs_dec model_opt)]
              | None \<Rightarrow> [])) \<and>
         (checkpoint \<noteq> None \<longrightarrow>
           pretrained_calls m = [] \<and>
           (\<forall>p. train_part \<noteq> ''context'' \<or> p \<notin> set (doc_context_parameters torch) \<longrightarrow>
                inits (params m p) = inits (parameters torch p)) \<and>
           (train_part = ''context'' \<longrightarrow>
              (\<forall>p. inits (params m p) =
                     inits (parameters torch p) @
                     concat (replicate (count_list (doc_context_parameters torch) p)
                       ((if param_init model_opt \<noteq> 0
                         then [Uniform (- param_init model_opt) (param_init model_opt)]
                         else []) @
                        (if param_init_glorot model_opt \<and> 1 < p_dim (parameters torch p)
                         then [Xavier] else []))))))"
proof (cases checkpoint)
  case None
  with assms have ps: "params m = init_section model_opt torch"
    and pc: "pretrained_calls m = pretrained_section model_opt (nmt m)"
    using make_base_model_no_checkpoint by blast+
  have "inits (init_section model_opt torch p) =
          inits (parameters torch p) @
          replicate
            (if param_init model_opt \<noteq> 0
             then count_list (model_parameters torch @ generator_parameters torch) p
             else 0)
            (Uniform (- param_init model_opt) (param_init model_opt)) @
          replicate
            (if param_init_glorot model_opt \<and> 1 < p_dim (parameters torch p)
             then count_list (model_parameters torch @ generator_parameters torch) p
             else 0)
            Xavier" for p
    by (simp add: init_section_def Let_def fold_uniform_init fold_xavier_if_matrix
          replicate_add)
  with None ps pc show ?thesis
    by (simp add: pretrained_section_def)
next
  case (Some ck)
  show ?thesis
  proof (cases "train_part = ''context''")
    case True
    from assms Some True obtain ct
      where pc: "pretrained_calls m = []"
        and ps: "params m =
             fold (unfreeze_step model_opt) (doc_context_parameters torch)
               (fold (set_require_grad False) (generator_parameters torch)
                  (fold (set_require_grad False) (model_parameters torch)
                     (parameters torch)))"
      using make_base_model_checkpoint_context [of io torch model_opt flds gpu ck m]
      by blast
    have all: "inits (params m p) =
             inits (parameters torch p) @
             concat (replicate (count_list (doc_context_parameters torch) p)
               ((if param_init model_opt \<noteq> 0
                 then [Uniform (- param_init model_opt) (param_init model_opt)]
                 else []) @
                (if param_init_glorot model_opt \<and> 1 < p_dim (parameters torch p)
                 then [Xavier] else [])))" for p
      by (simp add: ps fold_unfreeze_step fold_set_require_grad)
    have "inits (params m p) = inits (parameters torch p)"
      if "p \<notin> set (doc_context_parameters torch)" for p
      using that by (simp add: all count_list_0_iff)
    with Some True pc all show ?thesis by simp
  next
    case False
    with assms Some have "params m = parameters torch" "pretrained_calls m = []"
      using make_base_model_checkpoint_all [of io torch model_opt flds gpu ck train_part m]
      by simp_all
    with Some False show ?thesis by simp
  qed
qed

theorem initialisation_policy_witness:
  "(\<exists>m. make_base_model example_io example_torch example_opt example_fields False None
          ''all'' = Inr m \<and>
       inits (params m 10) = [Uniform (- 0.1) 0.1, Xavier] \<and>
       inits (params m 11) = [Uniform (- 0.1) 0.1] \<and>
       inits (params m 20) = [Uniform (- 0.1) 0.1, Xavier] \<and>
       length (pretrained_calls m) = 2) \<and>
   (\<exists>m. make_base_model example_io example_torch (example_opt\<lparr>model_type := ''img''\<rparr>)
          example_fields False None ''all'' = Inr m \<and>
       length (pretrained_calls m) = 1) \<and>
   (\<exists>m. make_base_model example_io example_torch example_opt example_fields False
          (Some example_checkpoint) ''all'' = Inr m \<and>
       inits (params m 10) = [] \<and> inits (params m 12) = [] \<and> pretrained_calls m = []) \<and>
   (\<exists>m. make_base_model example_io example_torch example_opt example_fields False
          (Some example_checkpoint) ''context'' = Inr m \<and>
       inits (params m 10) = [] \<and> inits (params m 20) = [] \<and>
       inits (params m 11) = [Uniform (- 0.1) 0.1] \<and>
       inits (params m 12) = [Uniform (- 0.1) 0.1, Xavier] \<and> pretrained_calls m = [])"
proof -
  obtain m1 where m1: "make_base_model example_io example_torch example_opt example_fields
      False None ''all'' = Inr m1"
    using make_base_model_succeeds
      [of example_opt example_fields example_io None "''all''" example_torch False]
    by (auto simp: example_opt_def)
  obtain m2 where m2: "make_base_model example_io example_torch
      (example_opt\<lparr>model_type := ''img''\<rparr>) example_fields False None ''all'' = Inr m2"
    using make_base_model_succeeds
      [of "example_opt\<lparr>model_type := ''img''\<rparr>" example_fields example_io
         None "''all''" example_torch False]
    by (auto simp: example_opt_def)
  obtain m3 where m3: "make_base_model example_io example_torch example_opt example_fields
      False (Some example_checkpoint) ''all'' = Inr m3"
    using make_base_model_succeeds
      [of example_opt example_fields example_io "Some example_checkpoint" "''all''"
         example_torch False]
    by (auto simp: example_opt_def)
  obtain m4 where m4: "make_base_model example_io example_torch example_opt example_fields
      False (Some example_checkpoint) ''context'' = Inr m4"
    using make_base_model_succeeds
      [of example_opt example_fields example_io "Some example_checkpoint" "''context''"
         example_torch False]
    by (auto simp: example_opt_def)
  note t1 = initialisation_policy [OF m1]
  note t2 = initialisation_policy [OF m2]
  note t3 = initialisation_policy [OF m3]
  note t4 = initialisation_policy [OF m4]
  have a: "inits (params m1 10) = [Uniform (- 0.1) 0.1, Xavier] \<and>
       inits (params m1 11) = [Uniform (- 0.1) 0.1] \<and>
       inits (params m1 20) = [Uniform (- 0.1) 0.1, Xavier]"
    using t1 by (simp add: example_opt_def example_torch_def fresh_param_def)
  have a': "length (pretrained_calls m1) = 2"
    using t1 make_base_model_embeddings_attr [OF m1]
    by (auto simp: example_opt_def split: option.splits)
  have b: "length (pretrained_calls m2) = 1"
    using t2 make_base_model_embeddings_attr [OF m2]
    by (auto simp: example_opt_def split: option.splits)
  have c: "inits (params m3 10) = [] \<and> inits (params m3 12) = [] \<and> pretrained_calls m3 = []"
    using t3 by (simp add: example_torch_def fresh_param_def)
  have d: "inits (params m4 10) = [] \<and> inits (params m4 20) = [] \<and>
       inits (params m4 11) = [Uniform (- 0.1) 0.1] \<and>
       inits (params m4 12) = [Uniform (- 0.1) 0.1, Xavier] \<and> pretrained_calls m4 = []"
    using t4 by (simp add: example_opt_def example_torch_def fresh_param_def)
  from m1 m2 m3 m4 a a' b c d show ?thesis by blast
qed

subsection \<open>The paired context modules and freezing\<close>

text \<open>The renaming of the join branch on the keys of the examples: a key is renamed
  only if the model state has it under its old name.\<close>

lemma str_replace_doc_context:
  "str_replace ''doc_context'' ''doc_context.0'' ''doc_context.w'' = ''doc_context.0.w'' \<and>
   str_replace ''doc_context'' ''doc_context.0'' ''doc_context.0.w'' = ''doc_context.0.0.w'' \<and>
   str_replace ''doc_context'' ''doc_context.0'' ''encoder.w'' = ''encoder.w''"
  by (simp add: str_replace.simps)

lemma pretrained_join_examples:
  "pretrained_join (state_dict join_torch) [(''doc_context.w'', 300)] = [] \<and>
   pretrained_join (state_dict join_torch) [(''doc_context.0.w'', 7)] =
     [(''doc_context.0.0.w'', 7)]"
  by (simp add: pretrained_join_def join_torch_def key_in_def str_replace.simps)

text \<open>Claim C1. With a checkpoint, \<^verbatim>\<open>train_part = "context"\<close> and a context type
  containing "join", the dictionary loaded into the model is the model state updated
  with the checkpoint entries whose keys are in the model state, a key containing
  "doc_context" being renamed to "doc_context.0", so that the parameters of a single
  pretrained context module are loaded into the first of the paired modules. On the
  paired model and the checkpoint of a model with one context module the run does
  not do so: the key \<^verbatim>\<open>doc_context.w\<close> of the checkpoint is not a key of the
  paired model, the test on the key precedes the renaming, and the entry is dropped;
  \<^verbatim>\<open>doc_context.0.w\<close> keeps the tensor 2 of the fresh model instead of the
  tensor 300 of the checkpoint.\<close>

theorem join_single_context_not_loaded:
  "\<exists>m. make_base_model example_io join_torch (example_opt\<lparr>context_type := Some ''HAN_join''\<rparr>)
          example_fields False (Some single_context_checkpoint) ''context'' = Inr m \<and>
       loaded_dict m =
         Some [(''encoder.w'', 100), (''doc_context.0.w'', 2), (''doc_context.1.w'', 3)] \<and>
       state m = [(''encoder.w'', 100), (''doc_context.0.w'', 2), (''doc_context.1.w'', 3)]"
proof -
  obtain m where m: "make_base_model example_io join_torch
      (example_opt\<lparr>context_type := Some ''HAN_join''\<rparr>) example_fields False
      (Some single_context_checkpoint) ''context'' = Inr m"
    using make_base_model_succeeds
      [of "example_opt\<lparr>context_type := Some ''HAN_join''\<rparr>" example_fields
         example_io "Some single_context_checkpoint" "''context''" join_torch False]
    by (auto simp: example_opt_def)
  have pj: "pretrained_join (state_dict join_torch) (ck_model single_context_checkpoint) =
              [(''encoder.w'', 100)]"
    by (simp add: pretrained_join_def join_torch_def single_context_checkpoint_def key_in_def)
  have du: "dict_update (state_dict join_torch) [(''encoder.w'', 100)] =
              [(''encoder.w'', 100), (''doc_context.0.w'', 2), (''doc_context.1.w'', 3)]"
    by (simp add: dict_update_def join_torch_def)
  have ls: "load_state_dict (state_dict join_torch)
              [(''encoder.w'', 100), (''doc_context.0.w'', 2), (''doc_context.1.w'', 3)] =
              [(''encoder.w'', 100), (''doc_context.0.w'', 2), (''doc_context.1.w'', 3)]"
    by (simp add: load_state_dict_def join_torch_def)
  from make_base_model_checkpoint_context [OF m]
  have "loaded_dict m =
         Some [(''encoder.w'', 100), (''doc_context.0.w'', 2), (''doc_context.1.w'', 3)] \<and>
       state m = [(''encoder.w'', 100), (''doc_context.0.w'', 2), (''doc_context.1.w'', 3)]"
    by (simp add: example_opt_def pj du ls)
  with m show ?thesis by blast
qed

text \<open>Claim C2. With a checkpoint and \<^verbatim>\<open>train_part = "context"\<close>, after
  loading every parameter of the model and of the generator is frozen
  (\<^verbatim>\<open>requires_grad\<close> is false) and every parameter of the context module is
  unfrozen. The loops assign the attribute \<^verbatim>\<open>require_grad\<close>: after the run on
  the example the encoder matrix (object 10) and the generator matrix (object 20)
  have \<^verbatim>\<open>require_grad\<close> false and \<^verbatim>\<open>requires_grad\<close> still true.\<close>

theorem freezing_sets_other_attribute:
  "\<exists>m. make_base_model example_io example_torch example_opt example_fields False
          (Some example_checkpoint) ''context'' = Inr m \<and>
       requires_grad (params m 10) \<and> require_grad (params m 10) = Some False \<and>
       requires_grad (params m 20) \<and> require_grad (params m 20) = Some False"
proof -
  obtain m where m: "make_base_model example_io example_torch example_opt example_fields
      False (Some example_checkpoint) ''context'' = Inr m"
    using make_base_model_succeeds
      [of example_opt example_fields example_io "Some example_checkpoint" "''context''"
         example_torch False]
    by (auto simp: example_opt_def)
  from make_base_model_checkpoint_context [OF m]
  have ps: "params m =
         fold (unfreeze_step example_opt) (doc_context_parameters example_torch)
           (fold (set_require_grad False) (generator_parameters example_torch)
              (fold (set_require_grad False) (model_parameters example_torch)
                 (parameters example_torch)))"
    by blast
  have "requires_grad (params m 10) \<and> require_grad (params m 10) = Some False \<and>
       requires_grad (params m 20) \<and> require_grad (params m 20) = Some False"
    by (simp add: ps fold_unfreeze_step fold_set_require_grad)
      (simp add: example_torch_def fresh_param_def)
  with m show ?thesis by blast
qed

end
